theory Spec2Isabelle
  imports Complex_Main
begin

section \<open>Numbers, arrays and errors\<close>

text \<open>
  The estimators of \<^verbatim>\<open>pymultifracs\<close> compute with numpy arrays of floats.  The model is
  idealised: a finite float is a real number (no rounding, no overflow, no signed zero),
  and the three special values that numpy produces without raising (\<^verbatim>\<open>inf\<close>,
  \<^verbatim>\<open>-inf\<close>, \<^verbatim>\<open>nan\<close>) are values of their own, since \<^verbatim>\<open>np.log2(0)\<close> is
  \<^verbatim>\<open>-inf\<close> and \<^verbatim>\<open>0/0\<close> is \<^verbatim>\<open>nan\<close> (with a warning, never an exception).
\<close>

datatype npfloat = Fin real | PInf | NInf | NaN

datatype error =
    TypeError | AttributeError | KeyError | IndexError | ValueError
  | InvalidWindowError | DegenerateRegressionError | ZeroMassError | EmptyScaleError

fun np_neg :: "npfloat \<Rightarrow> npfloat" where
  "np_neg (Fin a) = Fin (- a)"
| "np_neg PInf = NInf"
| "np_neg NInf = PInf"
| "np_neg NaN = NaN"

fun np_add :: "npfloat \<Rightarrow> npfloat \<Rightarrow> npfloat" where
  "np_add (Fin a) (Fin b) = Fin (a + b)"
| "np_add (Fin a) PInf = PInf"
| "np_add (Fin a) NInf = NInf"
| "np_add PInf (Fin b) = PInf"
| "np_add PInf PInf = PInf"
| "np_add NInf (Fin b) = NInf"
| "np_add NInf NInf = NInf"
| "np_add PInf NInf = NaN"
| "np_add NInf PInf = NaN"
| "np_add NaN b = NaN"
| "np_add a NaN = NaN"

definition np_sub :: "npfloat \<Rightarrow> npfloat \<Rightarrow> npfloat" where
  "np_sub a b = np_add a (np_neg b)"

text \<open>An infinity scaled by a finite factor: \<^verbatim>\<open>inf * 0\<close> is \<^verbatim>\<open>nan\<close>.\<close>

definition np_scale_inf :: "real \<Rightarrow> npfloat \<Rightarrow> npfloat" where
  "np_scale_inf r i = (if r = 0 then NaN else if 0 < r then i else np_neg i)"

fun np_mul :: "npfloat \<Rightarrow> npfloat \<Rightarrow> npfloat" where
  "np_mul (Fin a) (Fin b) = Fin (a * b)"
| "np_mul (Fin a) PInf = np_scale_inf a PInf"
| "np_mul (Fin a) NInf = np_scale_inf a NInf"
| "np_mul PInf (Fin b) = np_scale_inf b PInf"
| "np_mul NInf (Fin b) = np_scale_inf b NInf"
| "np_mul PInf PInf = PInf"
| "np_mul NInf NInf = PInf"
| "np_mul PInf NInf = NInf"
| "np_mul NInf PInf = NInf"
| "np_mul NaN b = NaN"
| "np_mul a NaN = NaN"

fun np_div :: "npfloat \<Rightarrow> npfloat \<Rightarrow> npfloat" where
  "np_div (Fin a) (Fin b) =
     (if b \<noteq> 0 then Fin (a / b)
      else if a = 0 then NaN else if 0 < a then PInf else NInf)"
| "np_div (Fin a) PInf = Fin 0"
| "np_div (Fin a) NInf = Fin 0"
| "np_div PInf (Fin b) = (if 0 \<le> b then PInf else NInf)"
| "np_div NInf (Fin b) = (if 0 \<le> b then NInf else PInf)"
| "np_div PInf PInf = NaN"
| "np_div PInf NInf = NaN"
| "np_div NInf PInf = NaN"
| "np_div NInf NInf = NaN"
| "np_div NaN b = NaN"
| "np_div a NaN = NaN"

text \<open>\<^verbatim>\<open>np.log2\<close>: \<^verbatim>\<open>-inf\<close> at 0 and \<^verbatim>\<open>nan\<close> below it.  (HOL's own \<open>log 2 0\<close> is 0.)\<close>

fun np_log2 :: "npfloat \<Rightarrow> npfloat" where
  "np_log2 (Fin a) = (if 0 < a then Fin (log 2 a) else if a = 0 then NInf else NaN)"
| "np_log2 PInf = PInf"
| "np_log2 NInf = NaN"
| "np_log2 NaN = NaN"

text \<open>\<^verbatim>\<open>ndarray.sum()\<close> of a one-dimensional array; the empty sum is 0.\<close>

definition np_sum :: "npfloat list \<Rightarrow> npfloat" where
  "np_sum xs = foldr np_add xs (Fin 0)"

text \<open>\<^verbatim>\<open>np.abs\<close> allocates a new array.\<close>

definition np_abs :: "real list \<Rightarrow> real list" where
  "np_abs xs = map abs xs"

text \<open>\<^verbatim>\<open>np.mean\<close> of a one-dimensional array of finite floats; of an empty array it is
  \<^verbatim>\<open>nan\<close> (numpy warns and divides 0 by 0).\<close>

definition np_mean :: "real list \<Rightarrow> npfloat" where
  "np_mean xs = np_div (Fin (sum_list xs)) (Fin (real (length xs)))"

text \<open>\<^verbatim>\<open>np.arange(a, b)\<close> on integers, as floats for the regression.\<close>

definition np_arange :: "int \<Rightarrow> int \<Rightarrow> real list" where
  "np_arange a b = map real_of_int [a..b - 1]"

text \<open>
  A basic slice \<^verbatim>\<open>xs[a:b]\<close>: a negative bound counts from the end, and both bounds are
  clipped to the array, so a slice never raises.  \<open>slice_positions n a b\<close> are the
  positions the slice selects in an array of length \<open>n\<close>.
\<close>

definition slice_bound :: "nat \<Rightarrow> int \<Rightarrow> nat" where
  "slice_bound n a = (if a < 0 then nat (max 0 (a + int n)) else min (nat a) n)"

definition slice_positions :: "nat \<Rightarrow> int \<Rightarrow> int \<Rightarrow> nat list" where
  "slice_positions n a b = [slice_bound n a..<slice_bound n b]"

definition py_slice :: "'a list \<Rightarrow> int \<Rightarrow> int \<Rightarrow> 'a list" where
  "py_slice xs a b = map (\<lambda>p. xs ! p) (slice_positions (length xs) a b)"

text \<open>A dict keeps its insertion order: an association list, read with \<open>map_of\<close>.\<close>

definition dict_get :: "('k \<times> 'v) list \<Rightarrow> 'k \<Rightarrow> error + 'v" where
  "dict_get d k = (case map_of d k of None \<Rightarrow> Inl KeyError | Some v \<Rightarrow> Inr v)"

definition dict_keys :: "('k \<times> 'v) list \<Rightarrow> 'k list" where
  "dict_keys d = map fst d"

section \<open>The collaborators that are not part of the two modules\<close>

text \<open>
  \<^verbatim>\<open>MultiResolutionQuantity\<close>: per scale \<open>j\<close> the count \<^verbatim>\<open>nj[j]\<close> and the coefficient
  array \<^verbatim>\<open>values[j]\<close>, both dicts keyed by the scale.
\<close>

record MultiResolutionQuantity =
  mrq_name :: string
  mrq_nj :: "(int \<times> int) list"
  mrq_values :: "(int \<times> real list) list"

text \<open>
  Modelled from the spec: \<^verbatim>\<open>fast_power\<close> of \<^verbatim>\<open>utils.py\<close> is missing.  The spec's
  PowerOp: element-wise; when \<open>q = 0\<close> the result is exactly 1 for every element, also
  where the element is 0; when \<open>q \<noteq> 0\<close> and the element is 0 the result is exactly 0;
  otherwise the standard real power.
\<close>

definition power_elem :: "real \<Rightarrow> real \<Rightarrow> real" where
  "power_elem x q = (if q = 0 then 1 else if x = 0 then 0 else x powr q)"

definition fast_power :: "real list \<Rightarrow> real \<Rightarrow> real list" where
  "fast_power xs q = map (\<lambda>x. power_elem x q) xs"

text \<open>
  Modelled from the spec: \<^verbatim>\<open>get_nj_interv\<close> of \<^verbatim>\<open>MultiResolutionQuantityBase\<close> is
  missing.  The spec's \<^verbatim>\<open>weight_over_interval(j1, j2)\<close>: for each \<open>j\<close> in \<open>[j1, j2]\<close>
  the weight of scale \<open>j\<close> (its count), \<open>j2 - j1 + 1\<close> of them.  A scale that the dict
  does not hold is a \<^verbatim>\<open>KeyError\<close>, as for every dict.
\<close>

fun collect_nj :: "(int \<times> int) list \<Rightarrow> int list \<Rightarrow> error + real list" where
  "collect_nj nj [] = Inr []"
| "collect_nj nj (j # js) =
     (case dict_get nj j of
        Inl e \<Rightarrow> Inl e
      | Inr n \<Rightarrow> (case collect_nj nj js of Inl e \<Rightarrow> Inl e | Inr ns \<Rightarrow> Inr (real_of_int n # ns)))"

definition get_nj_interv :: "(int \<times> int) list \<Rightarrow> int \<Rightarrow> int \<Rightarrow> error + real list" where
  "get_nj_interv nj j1 j2 = collect_nj nj [j1..j2]"

text \<open>
  Modelled from the spec: \<^verbatim>\<open>linear_regression\<close> of \<^verbatim>\<open>utils.py\<close> is missing.  The
  spec's WeightedLinearRegression: \<open>x\<close>, \<open>y\<close> and the weights are three sequences of one
  length \<open>n\<close> (anything else is rejected here); with \<open>W\<close> the sum of the weights and
  \<open>xbar\<close>, \<open>ybar\<close> the weighted means, the slope is
  \<open>\<Sum>w(x - xbar)(y - ybar) / \<Sum>w(x - xbar)\<^sup>2\<close> and the intercept \<open>ybar - slope * xbar\<close>;
  when all \<open>x\<close> are equal the fit fails.  The arithmetic is numpy's, so a \<open>y\<close> that holds
  \<^verbatim>\<open>-inf\<close> gives \<^verbatim>\<open>nan\<close> and nothing is raised.
\<close>

definition weighted_mean :: "npfloat list \<Rightarrow> npfloat list \<Rightarrow> npfloat" where
  "weighted_mean w v = np_div (np_sum (map2 np_mul w v)) (np_sum w)"

definition linear_regression ::
  "real list \<Rightarrow> npfloat list \<Rightarrow> real list \<Rightarrow> error + npfloat \<times> npfloat" where
  "linear_regression x y w =
     (if length y \<noteq> length x \<or> length w \<noteq> length x then Inl ValueError
      else if length (remdups x) \<le> 1 then Inl DegenerateRegressionError
      else
        let fx = map Fin x; fw = map Fin w;
            xbar = weighted_mean fw fx;
            ybar = weighted_mean fw y;
            dx = map (\<lambda>a. np_sub a xbar) fx;
            dy = map (\<lambda>b. np_sub b ybar) y;
            sxy = np_sum (map2 np_mul fw (map2 np_mul dx dy));
            sxx = np_sum (map2 np_mul fw (map2 np_mul dx dx));
            slope = np_div sxy sxx
        in Inr (slope, np_sub ybar (np_mul slope xbar)))"

section \<open>The structure-function estimator\<close>

text \<open>
  \<^verbatim>\<open>StructureFunction\<close> is a dataclass.  The fields \<^verbatim>\<open>q\<close>, \<^verbatim>\<open>j1\<close>, \<^verbatim>\<open>j2\<close>,
  \<^verbatim>\<open>wtype\<close> are set by the generated \<^verbatim>\<open>__init__\<close>; the fields declared
  \<^verbatim>\<open>field(init=False)\<close> (\<^verbatim>\<open>j\<close>, \<^verbatim>\<open>values\<close>, \<^verbatim>\<open>logvalues\<close>, \<^verbatim>\<open>zeta\<close>)
  and the attributes \<^verbatim>\<open>name\<close> and \<^verbatim>\<open>intercept\<close> exist only once a method has assigned
  them: \<open>None\<close> is an attribute that is not set, and reading it is an
  \<^verbatim>\<open>AttributeError\<close>.
\<close>

record StructureFunction =
  sf_name :: "string option"
  sf_q :: "real list"
  sf_j1 :: int
  sf_j2 :: int
  sf_wtype :: bool
  sf_j :: "int list option"
  sf_values :: "npfloat list list option"
  sf_logvalues :: "npfloat list list option"
  sf_zeta :: "npfloat list option"
  sf_intercept :: "npfloat list option"

text \<open>The two objects a method of the estimator can reach: itself and the quantity.\<close>

record sf_state =
  self :: StructureFunction
  mrq :: MultiResolutionQuantity

text \<open>What a call passes positionally.\<close>

datatype pyobj = PyMRQ MultiResolutionQuantity | PyInt int | PyBool bool | PyArray "real list"

text \<open>\<^verbatim>\<open>np.zeros((r, c))\<close>, a list of \<open>r\<close> rows, and \<^verbatim>\<open>a[:, k] = v\<close>.\<close>

definition np_zeros2 :: "nat \<Rightarrow> nat \<Rightarrow> npfloat list list" where
  "np_zeros2 r c = replicate r (replicate c (Fin 0))"

definition set_column :: "npfloat list list \<Rightarrow> nat \<Rightarrow> npfloat list \<Rightarrow> npfloat list list" where
  "set_column a k v = map2 (\<lambda>row s. row[k := s]) a v"

text \<open>\<^verbatim>\<open>_compute\<close>, the loop over \<^verbatim>\<open>enumerate(self.q)\<close> that fills \<^verbatim>\<open>s_j\<close>.\<close>

fun SF_fill_s_j :: "real list \<Rightarrow> (nat \<times> real) list \<Rightarrow> npfloat list \<Rightarrow> npfloat list" where
  "SF_fill_s_j c_j [] s_j = s_j"
| "SF_fill_s_j c_j ((ind_q, q) # rest) s_j =
     SF_fill_s_j c_j rest (s_j[ind_q := np_mean (fast_power (np_abs c_j) q)])"

text \<open>\<^verbatim>\<open>_compute\<close>, the loop over \<^verbatim>\<open>enumerate(self.j)\<close> that fills the local \<^verbatim>\<open>values\<close>.\<close>

fun SF_fill_values ::
  "(int \<times> real list) list \<Rightarrow> real list \<Rightarrow> (nat \<times> int) list \<Rightarrow> npfloat list list
     \<Rightarrow> error + npfloat list list" where
  "SF_fill_values vals qs [] values = Inr values"
| "SF_fill_values vals qs ((ind_j, j) # rest) values =
     (case dict_get vals j of
        Inl e \<Rightarrow> Inl e
      | Inr c_j \<Rightarrow>
          let s_j = SF_fill_s_j c_j (enumerate 0 qs) (replicate (length values) (Fin 0))
          in SF_fill_values vals qs rest (set_column values ind_j s_j))"

text \<open>\<^verbatim>\<open>_compute\<close>: the only attribute it assigns is \<^verbatim>\<open>self.logvalues\<close>.\<close>

definition SF_compute :: "sf_state \<Rightarrow> error + sf_state" where
  "SF_compute st =
     (case sf_j (self st) of
        None \<Rightarrow> Inl AttributeError
      | Some js \<Rightarrow>
          (case SF_fill_values (mrq_values (mrq st)) (sf_q (self st)) (enumerate 0 js)
                  (np_zeros2 (length (sf_q (self st))) (length js)) of
             Inl e \<Rightarrow> Inl e
           | Inr values \<Rightarrow>
               Inr (st\<lparr>self := (self st)\<lparr>sf_logvalues := Some (map (map np_log2) values)\<rparr>\<rparr>)))"

text \<open>\<^verbatim>\<open>_compute_zeta\<close>, the loop over \<^verbatim>\<open>range(len(self.q))\<close>.\<close>

fun SF_zeta_loop ::
  "real list \<Rightarrow> real list \<Rightarrow> int \<Rightarrow> int \<Rightarrow> nat list \<Rightarrow> StructureFunction
     \<Rightarrow> error + StructureFunction" where
  "SF_zeta_loop x nj ind_j1 ind_j2 [] s = Inr s"
| "SF_zeta_loop x nj ind_j1 ind_j2 (ind_q # rest) s =
     (case sf_logvalues s of
        None \<Rightarrow> Inl AttributeError
      | Some lv \<Rightarrow>
          if length lv \<le> ind_q then Inl IndexError
          else
            (case linear_regression x (py_slice (lv ! ind_q) ind_j1 (ind_j2 + 1)) nj of
               Inl e \<Rightarrow> Inl e
             | Inr (slope, intercept) \<Rightarrow>
                 (case (sf_zeta s, sf_intercept s) of
                    (Some z, Some ic) \<Rightarrow>
                      SF_zeta_loop x nj ind_j1 ind_j2 rest
                        (s\<lparr>sf_zeta := Some (z[ind_q := slope]),
                           sf_intercept := Some (ic[ind_q := intercept])\<rparr>)
                  | _ \<Rightarrow> Inl AttributeError)))"

definition SF_weights :: "sf_state \<Rightarrow> real list \<Rightarrow> error + real list" where
  "SF_weights st x =
     (if sf_wtype (self st)
      then get_nj_interv (mrq_nj (mrq st)) (sf_j1 (self st)) (sf_j2 (self st))
      else Inr (replicate (length x) 1))"

definition SF_compute_zeta :: "sf_state \<Rightarrow> error + sf_state" where
  "SF_compute_zeta st =
     (let s0 = (self st)\<lparr>sf_zeta := Some (replicate (length (sf_q (self st))) (Fin 0)),
                         sf_intercept := Some (replicate (length (sf_q (self st))) (Fin 0))\<rparr>;
          x = np_arange (sf_j1 s0) (sf_j2 s0 + 1)
      in case SF_weights st x of
           Inl e \<Rightarrow> Inl e
         | Inr nj \<Rightarrow>
             (case SF_zeta_loop x nj (sf_j1 s0 - 1) (sf_j2 s0 - 1) [0..<length (sf_q s0)] s0 of
                Inl e \<Rightarrow> Inl e
              | Inr s \<Rightarrow> Inr (st\<lparr>self := s\<rparr>)))"

text \<open>\<^verbatim>\<open>__post_init__(self, mrq)\<close>: its body, then the binding of the call's arguments.\<close>

definition SF_post_init_body :: "sf_state \<Rightarrow> error + sf_state" where
  "SF_post_init_body st =
     (let st1 = st\<lparr>self := (self st)\<lparr>sf_name := Some (mrq_name (mrq st)),
                                     sf_j := Some (dict_keys (mrq_values (mrq st)))\<rparr>\<rparr>
      in case SF_compute st1 of Inl e \<Rightarrow> Inl e | Inr st2 \<Rightarrow> SF_compute_zeta st2)"

fun SF_post_init :: "StructureFunction \<Rightarrow> pyobj list \<Rightarrow> error + sf_state" where
  "SF_post_init s [a] =
     (case a of PyMRQ m \<Rightarrow> SF_post_init_body \<lparr>self = s, mrq = m\<rparr> | _ \<Rightarrow> Inl AttributeError)"
| "SF_post_init s _ = Inl TypeError"

text \<open>
  The generated \<^verbatim>\<open>__init__(self, mrq, q, j1, j2, wtype)\<close> stores the four fields and
  calls \<^verbatim>\<open>__post_init__\<close> with the \<^verbatim>\<open>InitVar\<close> fields, here \<^verbatim>\<open>mrq\<close> alone.
\<close>

definition StructureFunction_init ::
  "MultiResolutionQuantity \<Rightarrow> real list \<Rightarrow> int \<Rightarrow> int \<Rightarrow> bool \<Rightarrow> error + sf_state" where
  "StructureFunction_init m q j1 j2 wtype =
     SF_post_init
       \<lparr>sf_name = None, sf_q = q, sf_j1 = j1, sf_j2 = j2, sf_wtype = wtype, sf_j = None,
        sf_values = None, sf_logvalues = None, sf_zeta = None, sf_intercept = None\<rparr>
       [PyMRQ m]"

text \<open>\<^verbatim>\<open>get_H\<close>: \<^verbatim>\<open>self.zeta[self.q == 2]\<close> is a boolean mask, which must have the
  length of \<^verbatim>\<open>zeta\<close>.\<close>

definition np_mask :: "'a list \<Rightarrow> bool list \<Rightarrow> 'a list" where
  "np_mask xs m = map fst (filter snd (zip xs m))"

definition get_H :: "StructureFunction \<Rightarrow> error + npfloat option" where
  "get_H s =
     (case sf_zeta s of
        None \<Rightarrow> Inl AttributeError
      | Some z \<Rightarrow>
          if length z \<noteq> length (sf_q s) then Inl IndexError
          else
            (let H = np_mask z (map (\<lambda>q. q = 2) (sf_q s))
             in if 0 < length H then Inr (Some (np_div (hd H) (Fin 2))) else Inr None))"

section \<open>The multifractal-spectrum estimator\<close>

record MultifractalSpectrum =
  mfs_name :: "string option"
  mfs_nj :: "(int \<times> int) list option"
  mfs_j :: "int list option"
  mfs_j1 :: int
  mfs_j2 :: int
  mfs_wtype :: bool
  mfs_q :: "real list"
  mfs_Dq :: "npfloat list option"
  mfs_hq :: "npfloat list option"
  mfs_U :: "npfloat list list option"
  mfs_V :: "npfloat list list option"

text \<open>
  \<^verbatim>\<open>_compute\<close>, the body of the loop over the scales, for one scale with count \<open>nj\<close> and
  coefficients \<open>c_j\<close>: the rows \<^verbatim>\<open>V[ind_j, :]\<close> and \<^verbatim>\<open>U[ind_j, :]\<close>.  \<^verbatim>\<open>np.stack\<close> of
  an empty list raises \<^verbatim>\<open>ValueError\<close>.
\<close>

definition MFS_R_j :: "real list \<Rightarrow> real list \<Rightarrow> npfloat list list" where
  "MFS_R_j m qs =
     map (\<lambda>t. map (\<lambda>a. np_div (Fin a) (Fin (sum_list t))) t) (map (\<lambda>q. fast_power m q) qs)"

definition MFS_V_row :: "real list \<Rightarrow> npfloat list list \<Rightarrow> npfloat list" where
  "MFS_V_row m R_j = map (\<lambda>R. np_sum (map2 np_mul R (map (\<lambda>a. np_log2 (Fin a)) m))) R_j"

definition MFS_U_row :: "int \<Rightarrow> npfloat list list \<Rightarrow> npfloat list" where
  "MFS_U_row nj R_j =
     map (\<lambda>R. np_add (np_log2 (Fin (real_of_int nj))) (np_sum (map2 np_mul R (map np_log2 R)))) R_j"

fun MFS_fill_UV ::
  "MultiResolutionQuantity \<Rightarrow> real list \<Rightarrow> (nat \<times> int) list
     \<Rightarrow> npfloat list list \<times> npfloat list list
     \<Rightarrow> error + npfloat list list \<times> npfloat list list" where
  "MFS_fill_UV m qs [] (U, V) = Inr (U, V)"
| "MFS_fill_UV m qs ((ind_j, j) # rest) (U, V) =
     (case dict_get (mrq_nj m) j of
        Inl e \<Rightarrow> Inl e
      | Inr nj \<Rightarrow>
          (case dict_get (mrq_values m) j of
             Inl e \<Rightarrow> Inl e
           | Inr c_j \<Rightarrow>
               if qs = [] then Inl ValueError
               else
                 let mrq_values_j = np_abs c_j;
                     R_j = MFS_R_j mrq_values_j qs;
                     V' = V[ind_j := MFS_V_row mrq_values_j R_j];
                     U' = U[ind_j := MFS_U_row nj R_j]
                 in MFS_fill_UV m qs rest (U', V')))"

text \<open>\<^verbatim>\<open>_compute\<close>, the loop of the two regressions per exponent, on the local arrays
  \<^verbatim>\<open>Dq\<close> and \<^verbatim>\<open>hq\<close>.\<close>

definition column_window :: "npfloat list list \<Rightarrow> int \<Rightarrow> int \<Rightarrow> nat \<Rightarrow> npfloat list" where
  "column_window a lo hi k = map (\<lambda>row. row ! k) (py_slice a lo hi)"

fun MFS_regress_loop ::
  "real list \<Rightarrow> real list \<Rightarrow> npfloat list list \<Rightarrow> npfloat list list \<Rightarrow> int \<Rightarrow> int \<Rightarrow> nat list
     \<Rightarrow> npfloat list \<times> npfloat list \<Rightarrow> error + npfloat list \<times> npfloat list" where
  "MFS_regress_loop x wj U V j1 j2 [] (Dq, hq) = Inr (Dq, hq)"
| "MFS_regress_loop x wj U V j1 j2 (ind_q # rest) (Dq, hq) =
     (case linear_regression x (column_window U (j1 - 1) j2 ind_q) wj of
        Inl e \<Rightarrow> Inl e
      | Inr (slope_1, i1) \<Rightarrow>
          (case linear_regression x (column_window V (j1 - 1) j2 ind_q) wj of
             Inl e \<Rightarrow> Inl e
           | Inr (slope_2, i2) \<Rightarrow>
               MFS_regress_loop x wj U V j1 j2 rest
                 (Dq[ind_q := np_add (Fin 1) slope_1], hq[ind_q := slope_2])))"

definition MFS_weights :: "MultifractalSpectrum \<Rightarrow> real list \<Rightarrow> error + real list" where
  "MFS_weights s x =
     (if mfs_wtype s
      then (case mfs_nj s of
              None \<Rightarrow> Inl AttributeError
            | Some nj \<Rightarrow> get_nj_interv nj (mfs_j1 s) (mfs_j2 s))
      else Inr (replicate (length x) 1))"

definition MFS_compute :: "MultifractalSpectrum \<Rightarrow> MultiResolutionQuantity \<Rightarrow> error + MultifractalSpectrum" where
  "MFS_compute s m =
     (case mfs_j s of
        None \<Rightarrow> Inl AttributeError
      | Some js \<Rightarrow>
          (case MFS_fill_UV m (mfs_q s) (enumerate 0 js)
                  (np_zeros2 (length js) (length (mfs_q s)), np_zeros2 (length js) (length (mfs_q s))) of
             Inl e \<Rightarrow> Inl e
           | Inr (U, V) \<Rightarrow>
               (let s1 = s\<lparr>mfs_U := Some U, mfs_V := Some V\<rparr>;
                    x = np_arange (mfs_j1 s1) (mfs_j2 s1 + 1)
                in case MFS_weights s1 x of
                     Inl e \<Rightarrow> Inl e
                   | Inr wj \<Rightarrow>
                       (case MFS_regress_loop x wj U V (mfs_j1 s1) (mfs_j2 s1) [0..<length (mfs_q s1)]
                               (replicate (length (mfs_q s1)) (Fin 0), replicate (length (mfs_q s1)) (Fin 0)) of
                          Inl e \<Rightarrow> Inl e
                        | Inr (Dq, hq) \<Rightarrow> Inr (s1\<lparr>mfs_Dq := Some Dq, mfs_hq := Some hq\<rparr>)))))"

text \<open>
  \<^verbatim>\<open>__post_init__(self, mrq, j1, j2, wtype)\<close>: the body reads only \<^verbatim>\<open>mrq\<close>; then the
  binding of the call's arguments to the four parameters.
\<close>

definition MFS_post_init_body :: "MultifractalSpectrum \<Rightarrow> MultiResolutionQuantity \<Rightarrow> error + MultifractalSpectrum" where
  "MFS_post_init_body s m =
     MFS_compute (s\<lparr>mfs_name := Some (mrq_name m), mfs_nj := Some (mrq_nj m),
                     mfs_j := Some (dict_keys (mrq_values m))\<rparr>) m"

fun MFS_post_init :: "MultifractalSpectrum \<Rightarrow> pyobj list \<Rightarrow> error + MultifractalSpectrum" where
  "MFS_post_init s [a, j1, j2, wtype] =
     (case a of PyMRQ m \<Rightarrow> MFS_post_init_body s m | _ \<Rightarrow> Inl AttributeError)"
| "MFS_post_init s _ = Inl TypeError"

text \<open>
  The generated \<^verbatim>\<open>__init__(self, mrq, j1, j2, wtype, q)\<close> stores the four fields and
  calls \<^verbatim>\<open>__post_init__\<close> with the \<^verbatim>\<open>InitVar\<close> fields, here \<^verbatim>\<open>mrq\<close> alone.
\<close>

definition MultifractalSpectrum_init ::
  "MultiResolutionQuantity \<Rightarrow> int \<Rightarrow> int \<Rightarrow> bool \<Rightarrow> real list \<Rightarrow> error + MultifractalSpectrum" where
  "MultifractalSpectrum_init m j1 j2 wtype q =
     MFS_post_init
       \<lparr>mfs_name = None, mfs_nj = None, mfs_j = None, mfs_j1 = j1, mfs_j2 = j2,
        mfs_wtype = wtype, mfs_q = q, mfs_Dq = None, mfs_hq = None, mfs_U = None, mfs_V = None\<rparr>
       [PyMRQ m]"

section \<open>The specification's quantities, and the stored arrays in closed form\<close>

text \<open>
  The interface of the quantity in the specification's words: \<open>count m j\<close> and
  \<open>coefficients m j\<close> of a scale \<open>j\<close>, and \<open>scales m\<close> in the order of the dict.
\<close>

definition scales :: "MultiResolutionQuantity \<Rightarrow> int list" where
  "scales m = map fst (mrq_values m)"

definition count :: "MultiResolutionQuantity \<Rightarrow> int \<Rightarrow> int" where
  "count m j = (case map_of (mrq_nj m) j of None \<Rightarrow> 0 | Some n \<Rightarrow> n)"

definition coefficients :: "MultiResolutionQuantity \<Rightarrow> int \<Rightarrow> real list" where
  "coefficients m j = (case map_of (mrq_values m) j of None \<Rightarrow> [] | Some c \<Rightarrow> c)"

text \<open>
  What the loop over the scales stores, in closed form: at a scale \<open>j\<close> and an exponent
  \<open>q\<close> the loop body divides \<^verbatim>\<open>temp\<close> by its sum, multiplies by the logarithms and sums,
  all in numpy's arithmetic, where \<^verbatim>\<open>0 * -inf\<close> is \<^verbatim>\<open>nan\<close>.  \<open>MFS_U_matrix\<close> and
  \<open>MFS_V_matrix\<close> are the arrays \<^verbatim>\<open>U\<close> and \<^verbatim>\<open>V\<close> after the loop.
\<close>

definition MFS_R_entry :: "MultiResolutionQuantity \<Rightarrow> real \<Rightarrow> int \<Rightarrow> npfloat list" where
  "MFS_R_entry m q j =
     (let t = fast_power (np_abs (coefficients m j)) q
      in map (\<lambda>a. np_div (Fin a) (Fin (sum_list t))) t)"

definition MFS_V_entry :: "MultiResolutionQuantity \<Rightarrow> real \<Rightarrow> int \<Rightarrow> npfloat" where
  "MFS_V_entry m q j =
     np_sum (map2 np_mul (MFS_R_entry m q j)
               (map (\<lambda>a. np_log2 (Fin a)) (np_abs (coefficients m j))))"

definition MFS_U_entry :: "MultiResolutionQuantity \<Rightarrow> real \<Rightarrow> int \<Rightarrow> npfloat" where
  "MFS_U_entry m q j =
     np_add (np_log2 (Fin (real_of_int (count m j))))
       (np_sum (map2 np_mul (MFS_R_entry m q j) (map np_log2 (MFS_R_entry m q j))))"

definition MFS_U_matrix :: "MultiResolutionQuantity \<Rightarrow> real list \<Rightarrow> npfloat list list" where
  "MFS_U_matrix m qs = map (\<lambda>j. map (\<lambda>q. MFS_U_entry m q j) qs) (scales m)"

definition MFS_V_matrix :: "MultiResolutionQuantity \<Rightarrow> real list \<Rightarrow> npfloat list list" where
  "MFS_V_matrix m qs = map (\<lambda>j. map (\<lambda>q. MFS_V_entry m q j) qs) (scales m)"

text \<open>The structure function \<open>S(j, q) = mean(power(|coefficients(j)|, q))\<close> and its
  base-2 logarithm, one row per exponent and one column per scale of the quantity.\<close>

definition S_moment :: "MultiResolutionQuantity \<Rightarrow> real \<Rightarrow> int \<Rightarrow> npfloat" where
  "S_moment m q j = np_mean (fast_power (np_abs (coefficients m j)) q)"

definition SF_values_spec :: "MultiResolutionQuantity \<Rightarrow> real list \<Rightarrow> npfloat list list" where
  "SF_values_spec m qs = map (\<lambda>q. map (\<lambda>j. S_moment m q j) (scales m)) qs"

definition SF_logvalues_spec :: "MultiResolutionQuantity \<Rightarrow> real list \<Rightarrow> npfloat list list" where
  "SF_logvalues_spec m qs = map (map np_log2) (SF_values_spec m qs)"

text \<open>The weights of the window: the counts of the scales \<open>j1, \<dots>, j2\<close> when the
  weighting flag is set, ones otherwise.\<close>

definition window_weights :: "MultiResolutionQuantity \<Rightarrow> int \<Rightarrow> int \<Rightarrow> bool \<Rightarrow> real list" where
  "window_weights m j1 j2 wtype =
     (if wtype then map (\<lambda>j. real_of_int (count m j)) [j1..j2] else replicate (length [j1..j2]) 1)"





text \<open>The windows by scale: the logarithms of the structure function, \<open>U\<close> and \<open>V\<close> at the
  scales \<open>j1, \<dots>, j2\<close>.\<close>

definition logvalues_at_scales :: "MultiResolutionQuantity \<Rightarrow> real \<Rightarrow> int \<Rightarrow> int \<Rightarrow> npfloat list" where
  "logvalues_at_scales m q j1 j2 = map (\<lambda>j. np_log2 (S_moment m q j)) [j1..j2]"




section \<open>Example quantities\<close>

definition mrq_ex :: MultiResolutionQuantity where
  "mrq_ex = \<lparr>mrq_name = ''ex'', mrq_nj = [(1, 2), (2, 2), (3, 1)],
             mrq_values = [(1, [1, 1]), (2, [2, - 2]), (3, [1])]\<rparr>"

definition sf_ex :: sf_state where
  "sf_ex = \<lparr>self = \<lparr>sf_name = Some ''ex'', sf_q = [1, 2], sf_j1 = 1, sf_j2 = 3,
                     sf_wtype = True, sf_j = Some [1, 2, 3], sf_values = None,
                     sf_logvalues = Some [[Fin 0, Fin 1, Fin 0], [Fin 0, Fin 2, Fin 0]],
                     sf_zeta = Some [Fin (1 / 7), Fin (2 / 7)],
                     sf_intercept = Some [Fin (1 / 7), Fin (2 / 7)]\<rparr>,
            mrq = mrq_ex\<rparr>"

definition mfs_ex0 :: MultifractalSpectrum where
  "mfs_ex0 = \<lparr>mfs_name = None, mfs_nj = None, mfs_j = None, mfs_j1 = 1, mfs_j2 = 3,
        mfs_wtype = True, mfs_q = [1], mfs_Dq = None, mfs_hq = None, mfs_U = None, mfs_V = None\<rparr>"

definition mfs_ex :: MultifractalSpectrum where
  "mfs_ex = \<lparr>mfs_name = Some ''ex'', mfs_nj = Some [(1, 2), (2, 2), (3, 1)],
             mfs_j = Some [1, 2, 3], mfs_j1 = 1, mfs_j2 = 3, mfs_wtype = True,
             mfs_q = [1], mfs_Dq = Some [Fin 1], mfs_hq = Some [Fin (1 / 7)],
             mfs_U = Some [[Fin 0], [Fin 0], [Fin 0]],
             mfs_V = Some [[Fin 0], [Fin 1], [Fin 0]]\<rparr>"

definition mrq_zero :: MultiResolutionQuantity where
  "mrq_zero = \<lparr>mrq_name = ''zero'', mrq_nj = [(1, 2), (2, 2), (3, 1)],
               mrq_values = [(1, [1, 1]), (2, [0, 0]), (3, [1])]\<rparr>"

definition sf_zero :: sf_state where
  "sf_zero = \<lparr>self = \<lparr>sf_name = Some ''zero'', sf_q = [1], sf_j1 = 1, sf_j2 = 3,
                       sf_wtype = False, sf_j = Some [1, 2, 3], sf_values = None,
                       sf_logvalues = Some [[Fin 0, NInf, Fin 0]],
                       sf_zeta = Some [NaN], sf_intercept = Some [NaN]\<rparr>,
              mrq = mrq_zero\<rparr>"

definition mfs_zero :: MultifractalSpectrum where
  "mfs_zero = \<lparr>mfs_name = Some ''zero'', mfs_nj = Some [(1, 2), (2, 2), (3, 1)],
               mfs_j = Some [1, 2, 3], mfs_j1 = 1, mfs_j2 = 3, mfs_wtype = True,
               mfs_q = [1], mfs_Dq = Some [NaN], mfs_hq = Some [NaN],
               mfs_U = Some [[Fin 0], [NaN], [Fin 0]],
               mfs_V = Some [[Fin 0], [NaN], [Fin 0]]\<rparr>"

definition mrq_a :: MultiResolutionQuantity where
  "mrq_a = \<lparr>mrq_name = ''a'', mrq_nj = [(2, 1), (3, 1), (4, 1), (5, 1)],
            mrq_values = [(2, [1]), (3, [1]), (4, [2]), (5, [1])]\<rparr>"

definition mrq_b :: MultiResolutionQuantity where
  "mrq_b = \<lparr>mrq_name = ''b'', mrq_nj = [(2, 2), (3, 1), (4, 1), (5, 1)],
            mrq_values = [(2, [1, 1]), (3, [1]), (4, [2]), (5, [1])]\<rparr>"

definition mrq_ex2 :: MultiResolutionQuantity where
  "mrq_ex2 = \<lparr>mrq_name = ''ex2'', mrq_nj = [(1, 2), (2, 2), (3, 2)],
              mrq_values = [(1, [1, 1]), (2, [2, - 2]), (3, [2, 2])]\<rparr>"

definition mfs_ex1 :: MultifractalSpectrum where
  "mfs_ex1 = \<lparr>mfs_name = None, mfs_nj = None, mfs_j = None, mfs_j1 = 1, mfs_j2 = 2,
        mfs_wtype = True, mfs_q = [1], mfs_Dq = None, mfs_hq = None, mfs_U = None, mfs_V = None\<rparr>"

definition sf_neg :: sf_state where
  "sf_neg = \<lparr>self = \<lparr>sf_name = Some ''ex'', sf_q = [1], sf_j1 = - 2, sf_j2 = - 1,
                      sf_wtype = False, sf_j = Some [1, 2, 3], sf_values = None,
                      sf_logvalues = Some [[Fin 0, Fin 1, Fin 0]],
                      sf_zeta = Some [Fin 1], sf_intercept = Some [Fin 2]\<rparr>,
             mrq = mrq_ex\<rparr>"

definition sf_a :: sf_state where
  "sf_a = \<lparr>self = \<lparr>sf_name = Some ''a'', sf_q = [1], sf_j1 = 2, sf_j2 = 4,
                    sf_wtype = True, sf_j = Some [2, 3, 4, 5], sf_values = None,
                    sf_logvalues = Some [[Fin 0, Fin 0, Fin 1, Fin 0]],
                    sf_zeta = Some [Fin 0], sf_intercept = Some [Fin (1 / 3)]\<rparr>,
           mrq = mrq_a\<rparr>"

definition sf_b :: sf_state where
  "sf_b = \<lparr>self = \<lparr>sf_name = Some ''b'', sf_q = [1], sf_j1 = 2, sf_j2 = 4,
                    sf_wtype = True, sf_j = Some [2, 3, 4, 5], sf_values = None,
                    sf_logvalues = Some [[Fin 0, Fin 0, Fin 1, Fin 0]],
                    sf_zeta = Some [Fin (1 / 11)], sf_intercept = Some [Fin 0]\<rparr>,
           mrq = mrq_b\<rparr>"

text \<open>The example quantity with the window \<open>j1 = 2\<close>, \<open>j2 = 3\<close>, a proper part of its scales
  \<open>1, 2, 3\<close>: the structure function that the construction returns, and the spectrum before
  and after the body of \<^verbatim>\<open>__post_init__\<close>.\<close>

definition sf_sub :: sf_state where
  "sf_sub = \<lparr>self = \<lparr>sf_name = Some ''ex'', sf_q = [1, 2], sf_j1 = 2, sf_j2 = 3,
                      sf_wtype = True, sf_j = Some [1, 2, 3], sf_values = None,
                      sf_logvalues = Some [[Fin 0, Fin 1, Fin 0], [Fin 0, Fin 2, Fin 0]],
                      sf_zeta = Some [Fin (- 1), Fin (- 2)],
                      sf_intercept = Some [Fin 3, Fin 6]\<rparr>,
             mrq = mrq_ex\<rparr>"






section \<open>The loops of the structure function compute the specification's arrays\<close>

lemmas eval_defs =
  StructureFunction_init_def SF_post_init_body_def SF_compute_def SF_compute_zeta_def
  SF_weights_def dict_keys_def dict_get_def np_zeros2_def set_column_def enumerate_eq_zip
  np_mean_def fast_power_def power_elem_def np_abs_def np_arange_def py_slice_def
  slice_positions_def slice_bound_def linear_regression_def weighted_mean_def np_sum_def
  np_sub_def np_scale_inf_def get_nj_interv_def Let_def upto.simps eval_nat_numeral

lemma SF_fill_s_j_enumerate:
  "length s = n + length qs \<Longrightarrow>
   SF_fill_s_j c (enumerate n qs) s = take n s @ map (\<lambda>q. np_mean (fast_power (np_abs c) q)) qs"
proof (induction qs arbitrary: n s)
  case Nil
  then show ?case by simp
next
  case (Cons q qs)
  let ?v = "np_mean (fast_power (np_abs c) q)"
  have n: "n < length s" using Cons.prems by simp
  have "SF_fill_s_j c (enumerate n (q # qs)) s = SF_fill_s_j c (enumerate (Suc n) qs) (s[n := ?v])"
    by simp
  also have "\<dots> = take (Suc n) (s[n := ?v]) @ map (\<lambda>q. np_mean (fast_power (np_abs c) q)) qs"
    using Cons.prems by (intro Cons.IH) simp
  also have "take (Suc n) (s[n := ?v]) = take n s @ [?v]"
    using n by (simp add: take_Suc_conv_app_nth)
  finally show ?case by simp
qed

lemma SF_fill_s_j_all:
  "SF_fill_s_j c (enumerate 0 qs) (replicate (length qs) (Fin 0))
     = map (\<lambda>q. np_mean (fast_power (np_abs c) q)) qs"
  using SF_fill_s_j_enumerate [of "replicate (length qs) (Fin 0)" 0 qs c] by simp

lemma set_column_step:
  "set_column (map (\<lambda>q. map (g q) pre @ Fin 0 # replicate k (Fin 0)) qs) (length pre)
       (map (\<lambda>q. g q j) qs)
     = map (\<lambda>q. map (g q) (pre @ [j]) @ replicate k (Fin 0)) qs"
  by (simp add: set_column_def map2_map_map list_update_append)

lemma SF_fill_values_enumerate:
  "set rest \<subseteq> fst ` set (mrq_values m) \<Longrightarrow>
   SF_fill_values (mrq_values m) qs (enumerate (length pre) rest)
       (map (\<lambda>q. map (S_moment m q) pre @ replicate (length rest) (Fin 0)) qs)
     = Inr (map (\<lambda>q. map (S_moment m q) (pre @ rest)) qs)"
proof (induction rest arbitrary: pre)
  case Nil
  then show ?case by simp
next
  case (Cons j rest)
  from Cons.prems obtain c where c: "map_of (mrq_values m) j = Some c"
    by (cases "map_of (mrq_values m) j") (auto simp: map_of_eq_None_iff)
  have sj: "SF_fill_s_j c (enumerate 0 qs) (replicate (length qs) (Fin 0))
              = map (\<lambda>q. S_moment m q j) qs"
    by (simp add: SF_fill_s_j_all S_moment_def coefficients_def c)
  have "SF_fill_values (mrq_values m) qs (enumerate (length pre) (j # rest))
          (map (\<lambda>q. map (S_moment m q) pre @ replicate (length (j # rest)) (Fin 0)) qs)
        = SF_fill_values (mrq_values m) qs (enumerate (length (pre @ [j])) rest)
          (map (\<lambda>q. map (S_moment m q) (pre @ [j]) @ replicate (length rest) (Fin 0)) qs)"
    using set_column_step [of "S_moment m" pre "length rest" qs j]
    by (simp add: dict_get_def c sj)
  also have "\<dots> = Inr (map (\<lambda>q. map (S_moment m q) ((pre @ [j]) @ rest)) qs)"
    using Cons.prems by (intro Cons.IH) simp
  finally show ?case by simp
qed

lemma SF_fill_values_all:
  "SF_fill_values (mrq_values m) qs (enumerate 0 (scales m))
       (np_zeros2 (length qs) (length (scales m)))
     = Inr (SF_values_spec m qs)"
  using SF_fill_values_enumerate [of "scales m" m qs "[]"]
  by (simp add: np_zeros2_def map_replicate_const SF_values_spec_def scales_def)

lemma SF_compute_result:
  assumes "sf_j (self st) = Some (dict_keys (mrq_values (mrq st)))"
  shows "SF_compute st =
           Inr (st\<lparr>self := (self st)\<lparr>sf_logvalues :=
                  Some (SF_logvalues_spec (mrq st) (sf_q (self st)))\<rparr>\<rparr>)"
  using SF_fill_values_all [of "mrq st" "sf_q (self st)"]
  by (simp add: SF_compute_def assms SF_logvalues_spec_def scales_def dict_keys_def)

lemma SF_zeta_loop_result:
  assumes "SF_zeta_loop x nj a b idxs s = Inr s'"
    and "sf_logvalues s = Some lv" and "sf_zeta s = Some z" and "sf_intercept s = Some ic"
    and "distinct idxs" and "\<forall>i\<in>set idxs. i < length z \<and> i < length ic"
  shows "\<exists>z' ic'. s' = s\<lparr>sf_zeta := Some z', sf_intercept := Some ic'\<rparr>
           \<and> length z' = length z \<and> length ic' = length ic
           \<and> (\<forall>i\<in>set idxs. i < length lv
                  \<and> linear_regression x (py_slice (lv ! i) a (b + 1)) nj = Inr (z' ! i, ic' ! i))
           \<and> (\<forall>i. i \<notin> set idxs \<longrightarrow> z' ! i = z ! i \<and> ic' ! i = ic ! i)"
  using assms
proof (induction idxs arbitrary: s z ic)
  case Nil
  then have "s' = s\<lparr>sf_zeta := Some z, sf_intercept := Some ic\<rparr>" by simp
  then show ?case by auto
next
  case (Cons k idxs)
  let ?lr = "linear_regression x (py_slice (lv ! k) a (b + 1)) nj"
  have eq: "SF_zeta_loop x nj a b (k # idxs) s =
        (if length lv \<le> k then Inl IndexError
         else case ?lr of
                Inl e \<Rightarrow> Inl e
              | Inr (slope, intercept) \<Rightarrow>
                  SF_zeta_loop x nj a b idxs
                    (s\<lparr>sf_zeta := Some (z[k := slope]), sf_intercept := Some (ic[k := intercept])\<rparr>))"
    by (simp add: Cons.prems(2,3,4) split: sum.split)
  from Cons.prems(1) eq have k: "k < length lv"
    by (cases "length lv \<le> k") simp_all
  from Cons.prems(1) eq k obtain sl it where lr: "?lr = Inr (sl, it)"
    by (cases ?lr) auto
  let ?s1 = "s\<lparr>sf_zeta := Some (z[k := sl]), sf_intercept := Some (ic[k := it])\<rparr>"
  from Cons.prems(1) eq k lr have rec: "SF_zeta_loop x nj a b idxs ?s1 = Inr s'"
    by simp
  have lv1: "sf_logvalues ?s1 = Some lv" by (simp add: Cons.prems(2))
  have z1: "sf_zeta ?s1 = Some (z[k := sl])" and ic1: "sf_intercept ?s1 = Some (ic[k := it])"
    by simp_all
  have d1: "distinct idxs" using Cons.prems(5) by simp
  have b1: "\<forall>i\<in>set idxs. i < length (z[k := sl]) \<and> i < length (ic[k := it])"
    using Cons.prems(6) by simp
  from Cons.IH [OF rec lv1 z1 ic1 d1 b1] obtain z' ic' where r:
    "s' = ?s1\<lparr>sf_zeta := Some z', sf_intercept := Some ic'\<rparr>"
    "length z' = length z" "length ic' = length ic"
    "\<forall>i\<in>set idxs. i < length lv
        \<and> linear_regression x (py_slice (lv ! i) a (b + 1)) nj = Inr (z' ! i, ic' ! i)"
    "\<forall>i. i \<notin> set idxs \<longrightarrow> z' ! i = z[k := sl] ! i \<and> ic' ! i = ic[k := it] ! i"
    by auto
  from Cons.prems(5) have kn: "k \<notin> set idxs" by simp
  from Cons.prems(6) have kl: "k < length z" "k < length ic" by simp_all
  from r(5) kn kl have zk: "z' ! k = sl" "ic' ! k = it" by simp_all
  have s': "s' = s\<lparr>sf_zeta := Some z', sf_intercept := Some ic'\<rparr>"
    using r(1) by simp
  have other: "\<forall>i. i \<notin> set (k # idxs) \<longrightarrow> z' ! i = z ! i \<and> ic' ! i = ic ! i"
    using r(5) by auto
  have here: "\<forall>i\<in>set (k # idxs). i < length lv
        \<and> linear_regression x (py_slice (lv ! i) a (b + 1)) nj = Inr (z' ! i, ic' ! i)"
    using r(4) k lr zk by simp
  from s' r(2,3) here other show ?case by blast
qed

lemma collect_nj_result:
  "collect_nj nj js = Inr w \<Longrightarrow>
   w = map (\<lambda>j. real_of_int (case map_of nj j of None \<Rightarrow> 0 | Some n \<Rightarrow> n)) js
   \<and> set js \<subseteq> fst ` set nj"
proof (induction js arbitrary: w)
  case Nil
  then show ?case by simp
next
  case (Cons j js)
  then show ?case
    by (auto simp: dict_get_def split: option.splits sum.splits dest!: map_of_SomeD)
       (force+)
qed

lemma SF_weights_result:
  assumes "SF_weights st (map real_of_int [sf_j1 (self st)..sf_j2 (self st)]) = Inr w"
  shows "w = window_weights (mrq st) (sf_j1 (self st)) (sf_j2 (self st)) (sf_wtype (self st))"
  using assms collect_nj_result [of "mrq_nj (mrq st)" "[sf_j1 (self st)..sf_j2 (self st)]" w]
  by (auto simp: SF_weights_def window_weights_def get_nj_interv_def count_def split: if_splits)

text \<open>What a successful construction has stored.\<close>

lemma StructureFunction_init_success:
  assumes "StructureFunction_init m q j1 j2 wtype = Inr st"
  shows "\<exists>z ic.
           st = \<lparr>self = \<lparr>sf_name = Some (mrq_name m), sf_q = q, sf_j1 = j1, sf_j2 = j2,
                          sf_wtype = wtype, sf_j = Some (scales m),
                          sf_values = None, sf_logvalues = Some (SF_logvalues_spec m q),
                          sf_zeta = Some z, sf_intercept = Some ic\<rparr>, mrq = m\<rparr>
         \<and> length z = length q \<and> length ic = length q
         \<and> (\<forall>i<length q.
               linear_regression (map real_of_int [j1..j2])
                 (py_slice (SF_logvalues_spec m q ! i) (j1 - 1) j2)
                 (window_weights m j1 j2 wtype) = Inr (z ! i, ic ! i))"
proof -
  let ?s0 = "\<lparr>sf_name = None, sf_q = q, sf_j1 = j1, sf_j2 = j2, sf_wtype = wtype, sf_j = None,
        sf_values = None, sf_logvalues = None, sf_zeta = None, sf_intercept = None\<rparr>"
  let ?st1 = "\<lparr>self = ?s0\<lparr>sf_name := Some (mrq_name m),
                 sf_j := Some (dict_keys (mrq_values m))\<rparr>, mrq = m\<rparr>"
  let ?st2 = "?st1\<lparr>self := (self ?st1)\<lparr>sf_logvalues := Some (SF_logvalues_spec m q)\<rparr>\<rparr>"
  have c: "SF_compute ?st1 = Inr ?st2"
    using SF_compute_result [of ?st1] by simp
  from assms have z: "SF_compute_zeta ?st2 = Inr st"
    using c by (simp add: StructureFunction_init_def SF_post_init_body_def)
  let ?s3 = "(self ?st2)\<lparr>sf_zeta := Some (replicate (length q) (Fin 0)),
                         sf_intercept := Some (replicate (length q) (Fin 0))\<rparr>"
  from z obtain w where w: "SF_weights ?st2 (map real_of_int [j1..j2]) = Inr w"
    by (auto simp: SF_compute_zeta_def np_arange_def Let_def split: sum.splits)
  from SF_weights_result [OF _, of ?st2 w] w have w': "w = window_weights m j1 j2 wtype"
    by simp
  from z w obtain s where
    loop: "SF_zeta_loop (map real_of_int [j1..j2]) w (j1 - 1) (j2 - 1) [0..<length q] ?s3 = Inr s"
    and st: "st = ?st2\<lparr>self := s\<rparr>"
    by (auto simp: SF_compute_zeta_def np_arange_def Let_def split: sum.splits)
  from SF_zeta_loop_result [OF loop, of "SF_logvalues_spec m q" "replicate (length q) (Fin 0)"
      "replicate (length q) (Fin 0)"]
  obtain z' ic' where r:
    "s = ?s3\<lparr>sf_zeta := Some z', sf_intercept := Some ic'\<rparr>"
    "length z' = length q" "length ic' = length q"
    "\<forall>i\<in>set [0..<length q].
        linear_regression (map real_of_int [j1..j2])
          (py_slice (SF_logvalues_spec m q ! i) (j1 - 1) (j2 - 1 + 1)) w = Inr (z' ! i, ic' ! i)"
    by auto
  show ?thesis
    using w' st r by (intro exI [of _ z'] exI [of _ ic']) (auto simp: scales_def dict_keys_def)
qed

lemma log2_4: "log 2 (4::real) = 2"
  using log_nat_power [of 2 2 2] by simp

lemma sf_ex_constructed: "StructureFunction_init mrq_ex [1, 2] 1 3 True = Inr sf_ex"
  by (simp add: eval_defs mrq_ex_def sf_ex_def log2_4)

lemma py_slice_window:
  assumes "1 \<le> j1" and "0 \<le> j2" and "j2 \<le> int (length xs)"
  shows "py_slice xs (j1 - 1) j2 = map (\<lambda>j. xs ! nat (j - 1)) [j1..j2]"
proof -
  have b: "slice_bound (length xs) (j1 - 1) = min (nat (j1 - 1)) (length xs)"
    "slice_bound (length xs) j2 = nat j2"
    using assms by (auto simp: slice_bound_def)
  show ?thesis
  proof (cases "j1 \<le> j2")
    case True
    with assms b have b1: "slice_bound (length xs) (j1 - 1) = nat (j1 - 1)" by auto
    show ?thesis
      unfolding py_slice_def slice_positions_def b1 b(2)
    proof (rule nth_equalityI)
      show "length (map ((!) xs) [nat (j1 - 1)..<nat j2])
              = length (map (\<lambda>j. xs ! nat (j - 1)) [j1..j2])"
        using assms True by simp
    next
      fix k assume "k < length (map ((!) xs) [nat (j1 - 1)..<nat j2])"
      then have k: "k < nat j2 - nat (j1 - 1)" by simp
      then have "j1 + int k \<le> j2" using assms by linarith
      then have "[j1..j2] ! k = j1 + int k" by simp
      moreover have "k < length [j1..j2]" using k assms by simp
      moreover have "nat (j1 + int k - 1) = nat (j1 - 1) + k" using assms by linarith
      ultimately show "map ((!) xs) [nat (j1 - 1)..<nat j2] ! k
                         = map (\<lambda>j. xs ! nat (j - 1)) [j1..j2] ! k"
        using k by simp
    qed
  next
    case False
    with assms b have "slice_bound (length xs) j2 \<le> slice_bound (length xs) (j1 - 1)"
      by auto
    with False show ?thesis
      by (simp add: py_slice_def slice_positions_def)
  qed
qed

lemma np_mask_none: "\<forall>q\<in>set qs. \<not> P q \<Longrightarrow> np_mask z (map P qs) = []"
  by (auto simp: np_mask_def filter_empty_conv in_set_zip)

lemma np_mask_first:
  "length z = length qs \<Longrightarrow> i < length qs \<Longrightarrow> P (qs ! i) \<Longrightarrow> \<forall>k<i. \<not> P (qs ! k) \<Longrightarrow>
   np_mask z (map P qs) \<noteq> [] \<and> hd (np_mask z (map P qs)) = z ! i"
proof (induction z qs arbitrary: i rule: list_induct2)
  case Nil
  then show ?case by simp
next
  case (Cons a z q qs)
  show ?case
  proof (cases i)
    case 0
    with Cons.prems show ?thesis by (simp add: np_mask_def)
  next
    case (Suc n)
    with Cons.prems have "\<not> P q" by auto
    moreover from Suc Cons.prems have "np_mask z (map P qs) \<noteq> [] \<and> hd (np_mask z (map P qs)) = z ! n"
      by (intro Cons.IH) auto
    ultimately show ?thesis using Suc by (simp add: np_mask_def)
  qed
qed

lemma SF_compute_frame: "SF_compute st = Inr st' \<Longrightarrow> mrq st' = mrq st"
  by (auto simp: SF_compute_def split: option.splits sum.splits)

lemma SF_compute_zeta_frame: "SF_compute_zeta st = Inr st' \<Longrightarrow> mrq st' = mrq st"
  by (auto simp: SF_compute_zeta_def Let_def split: sum.splits)

lemma SF_post_init_body_frame: "SF_post_init_body st = Inr st' \<Longrightarrow> mrq st' = mrq st"
proof -
  assume a: "SF_post_init_body st = Inr st'"
  let ?st1 = "st\<lparr>self := (self st)\<lparr>sf_name := Some (mrq_name (mrq st)),
                                     sf_j := Some (dict_keys (mrq_values (mrq st)))\<rparr>\<rparr>"
  from a obtain st2 where c: "SF_compute ?st1 = Inr st2" and z: "SF_compute_zeta st2 = Inr st'"
    by (cases "SF_compute ?st1") (simp_all add: SF_post_init_body_def Let_def)
  from SF_compute_frame [OF c] SF_compute_zeta_frame [OF z] show ?thesis by simp
qed

section \<open>The structure-function estimator: the claims\<close>

text \<open>
  C1.  The class documents an attribute \<^verbatim>\<open>values\<close> holding \<open>S(j, q)\<close>, and the specification
  asks the constructed estimator to have it.  \<^verbatim>\<open>_compute\<close> builds the array in a local variable
  and assigns only \<^verbatim>\<open>self.logvalues\<close>: on the example quantity the attribute
  \<^verbatim>\<open>values\<close> is still unset after the construction, while \<^verbatim>\<open>logvalues\<close> holds the base-2
  logarithm of the moments, one column per scale.
\<close>

theorem values_attribute_never_assigned:
  "StructureFunction_init mrq_ex [1, 2] 1 3 True = Inr sf_ex
   \<and> sf_values (self sf_ex) = None
   \<and> sf_logvalues (self sf_ex) = Some [[Fin 0, Fin 1, Fin 0], [Fin 0, Fin 2, Fin 0]]"
  by (simp add: sf_ex_constructed sf_ex_def)

text \<open>
  The part of C1 that the code does have, for every quantity: a successful construction
  stores as \<^verbatim>\<open>logvalues\<close> the logarithm of \<open>mean(power(|coefficients(j)|, q))\<close> for every
  exponent and every scale of the quantity, and leaves \<^verbatim>\<open>values\<close> unset.
\<close>

lemma logvalues_of_constructed:
  assumes "StructureFunction_init m q j1 j2 wtype = Inr st"
    and "iq < length q" and "ij < length (scales m)"
  shows "sf_values (self st) = None"
    and "\<exists>lv. sf_logvalues (self st) = Some lv \<and> length lv = length q
            \<and> length (lv ! iq) = length (scales m)
            \<and> lv ! iq ! ij
                = np_log2 (np_mean (fast_power (np_abs (coefficients m (scales m ! ij))) (q ! iq)))"
  using StructureFunction_init_success [OF assms(1)] assms(2,3)
  by (auto simp: SF_logvalues_spec_def SF_values_spec_def S_moment_def)

text \<open>
  The window of a row of \<^verbatim>\<open>logvalues\<close> is the slice \<^verbatim>\<open>[j1-1 : j2]\<close>, taken by position.
  Where \<open>1 \<le> j1\<close>, \<open>0 \<le> j2\<close>, the window lies within the number of scales and every scale
  \<open>j\<close> of \<open>j1, \<dots>, j2\<close> is stored at position \<open>j - 1\<close>, the slice holds the logarithms of the
  structure function at the scales \<open>j1, \<dots>, j2\<close>.
\<close>

lemma sf_sub_constructed: "StructureFunction_init mrq_ex [1, 2] 2 3 True = Inr sf_sub"
  by (simp add: eval_defs mrq_ex_def sf_sub_def log2_4)

lemma logvalues_window_by_scale:
  assumes "i < length q" and "1 \<le> j1" and "0 \<le> j2" and "j2 \<le> int (length (scales m))"
    and "\<forall>j\<in>set [j1..j2]. scales m ! nat (j - 1) = j"
  shows "py_slice (SF_logvalues_spec m q ! i) (j1 - 1) j2 = logvalues_at_scales m (q ! i) j1 j2"
proof -
  have len: "length (SF_logvalues_spec m q ! i) = length (scales m)"
    using assms(1) by (simp add: SF_logvalues_spec_def SF_values_spec_def)
  have "py_slice (SF_logvalues_spec m q ! i) (j1 - 1) j2
          = map (\<lambda>j. SF_logvalues_spec m q ! i ! nat (j - 1)) [j1..j2]"
    using assms(2,3,4) len by (intro py_slice_window) auto
  also have "\<dots> = map (\<lambda>j. np_log2 (S_moment m (q ! i) j)) [j1..j2]"
  proof (rule map_cong [OF refl])
    fix j assume j: "j \<in> set [j1..j2]"
    then have "nat (j - 1) < length (scales m)" using assms(2,4) by auto
    moreover from j assms(5) have "scales m ! nat (j - 1) = j" by blast
    ultimately show "SF_logvalues_spec m q ! i ! nat (j - 1) = np_log2 (S_moment m (q ! i) j)"
      using assms(1) by (simp add: SF_logvalues_spec_def SF_values_spec_def)
  qed
  finally show ?thesis by (simp add: logvalues_at_scales_def)
qed

text \<open>
  C2, as the code has it.  For a constructed structure function with \<open>1 \<le> j1\<close>, \<open>0 \<le> j2\<close>,
  \<open>j2\<close> at most the number of scales, and every scale \<open>j\<close> of \<open>j1, \<dots>, j2\<close> stored at position
  \<open>j - 1\<close> of the quantity's scales (as when the scales are \<open>1, \<dots>, n\<close>), for each exponent
  \<open>q\<^sub>i\<close> the stored \<open>zeta[i]\<close> and \<open>intercept[i]\<close> are the slope and the intercept of the
  weighted linear regression of \<open>y = log2 S(j, q\<^sub>i)\<close>, \<open>j = j1, \<dots>, j2\<close>, against
  \<open>x = (j1, \<dots>, j2)\<close>, with the counts of the scales \<open>j1, \<dots>, j2\<close> as weights when the
  weighting flag is set and ones otherwise.
\<close>

theorem zeta_is_regression_over_scales:
  assumes "StructureFunction_init m q j1 j2 wtype = Inr st" and "i < length q"
    and "1 \<le> j1" and "0 \<le> j2" and "j2 \<le> int (length (scales m))"
    and "\<forall>j\<in>set [j1..j2]. scales m ! nat (j - 1) = j"
  shows "\<exists>zeta intercept.
           sf_zeta (self st) = Some zeta \<and> sf_intercept (self st) = Some intercept
         \<and> linear_regression (map real_of_int [j1..j2]) (logvalues_at_scales m (q ! i) j1 j2)
               (window_weights m j1 j2 wtype) = Inr (zeta ! i, intercept ! i)"
proof -
  from StructureFunction_init_success [OF assms(1)] obtain z ic where r:
    "sf_zeta (self st) = Some z" "sf_intercept (self st) = Some ic"
    "\<forall>i<length q.
        linear_regression (map real_of_int [j1..j2])
          (py_slice (SF_logvalues_spec m q ! i) (j1 - 1) j2)
          (window_weights m j1 j2 wtype) = Inr (z ! i, ic ! i)"
    by auto
  have e: "py_slice (SF_logvalues_spec m q ! i) (j1 - 1) j2 = logvalues_at_scales m (q ! i) j1 j2"
    by (rule logvalues_window_by_scale [OF assms(2-6)])
  from r(3) assms(2)
  have "linear_regression (map real_of_int [j1..j2])
          (py_slice (SF_logvalues_spec m q ! i) (j1 - 1) j2)
          (window_weights m j1 j2 wtype) = Inr (z ! i, ic ! i)"
    by blast
  then have "linear_regression (map real_of_int [j1..j2]) (logvalues_at_scales m (q ! i) j1 j2)
          (window_weights m j1 j2 wtype) = Inr (z ! i, ic ! i)"
    unfolding e .
  with r(1,2) show ?thesis by blast
qed

theorem zeta_is_regression_over_scales_witness:
  "StructureFunction_init mrq_ex [1, 2] 2 3 True = Inr sf_sub \<and> (1::nat) < length [1, 2 :: real]
   \<and> (1::int) \<le> 2 \<and> (0::int) \<le> 3 \<and> (3::int) \<le> int (length (scales mrq_ex))
   \<and> scales mrq_ex ! nat (2 - 1) = 2 \<and> scales mrq_ex ! nat (3 - 1) = 3
   \<and> logvalues_at_scales mrq_ex 2 2 3 = [Fin 2, Fin 0]
   \<and> window_weights mrq_ex 2 3 True = [2, 1]
   \<and> sf_zeta (self sf_sub) = Some [Fin (- 1), Fin (- 2)]
   \<and> sf_intercept (self sf_sub) = Some [Fin 3, Fin 6]
   \<and> linear_regression [2, 3] [Fin 2, Fin 0] [2, 1] = Inr (Fin (- 2), Fin 6)"
proof -
  have h: "(3::int) \<le> int (length (scales mrq_ex))"
    "scales mrq_ex ! nat (2 - 1) = 2" "scales mrq_ex ! nat (3 - 1) = 3" "[2..3] = [2, 3 :: int]"
    by (simp_all add: scales_def mrq_ex_def upto.simps eval_nat_numeral)
  have sc: "\<forall>j\<in>set [2..3]. scales mrq_ex ! nat (j - 1) = j"
    unfolding h(4) using h(2,3) by simp
  have v: "logvalues_at_scales mrq_ex 2 2 3 = [Fin 2, Fin 0]"
    "window_weights mrq_ex 2 3 True = [2, 1]"
    by (simp_all add: logvalues_at_scales_def S_moment_def coefficients_def window_weights_def
        count_def mrq_ex_def np_mean_def fast_power_def power_elem_def np_abs_def h(4) log2_4)
  have f: "sf_zeta (self sf_sub) = Some [Fin (- 1), Fin (- 2)]"
    "sf_intercept (self sf_sub) = Some [Fin 3, Fin 6]"
    by (simp_all add: sf_sub_def)
  from zeta_is_regression_over_scales [OF sf_sub_constructed, of 1, OF _ _ _ h(1) sc]
  have "linear_regression [2, 3] [Fin 2, Fin 0] [2, 1] = Inr (Fin (- 2), Fin 6)"
    by (simp add: v f h(4))
  with sf_sub_constructed h v f show ?thesis by simp
qed

text \<open>
  C2 as stated fails for a quantity whose scales do not start at 1: with the scales
  \<open>2, 3, 4, 5\<close> and the window \<open>j1 = 2\<close>, \<open>j2 = 4\<close> the code regresses the columns 1 to 3,
  the scales \<open>3, 4, 5\<close>, and stores the slope 0 and the intercept \<open>1/3\<close>, while the
  regression of the logarithms at the scales \<open>2, 3, 4\<close> against \<open>x = (2, 3, 4)\<close> has the
  slope \<open>1/2\<close> and the intercept \<open>-7/6\<close>.
\<close>

theorem zeta_by_position_counterexample:
  "scales mrq_a = [2, 3, 4, 5]
   \<and> StructureFunction_init mrq_a [1] 2 4 True = Inr sf_a
   \<and> sf_zeta (self sf_a) = Some [Fin 0] \<and> sf_intercept (self sf_a) = Some [Fin (1 / 3)]
   \<and> logvalues_at_scales mrq_a 1 2 4 = [Fin 0, Fin 0, Fin 1]
   \<and> window_weights mrq_a 2 4 True = [1, 1, 1]
   \<and> linear_regression [2, 3, 4] [Fin 0, Fin 0, Fin 1] [1, 1, 1]
       = Inr (Fin (1 / 2), Fin (- (7 / 6)))"
  by (simp add: eval_defs mrq_a_def sf_a_def scales_def logvalues_at_scales_def S_moment_def
      coefficients_def window_weights_def count_def)


text \<open>
  C5.  The power primitive on a non-negative array: with exponent 0 every element is 1,
  also where the element is 0; with another exponent an element 0 gives 0; otherwise the
  element is the real power.
\<close>

theorem fast_power_boundary:
  assumes "\<forall>x\<in>set xs. 0 \<le> x"
  shows "fast_power xs 0 = replicate (length xs) 1
       \<and> length (fast_power xs q) = length xs
       \<and> (\<forall>i<length xs. fast_power xs q ! i =
             (if q = 0 then 1 else if xs ! i = 0 then 0 else xs ! i powr q))"
  by (simp add: fast_power_def power_elem_def map_replicate_const)

theorem fast_power_boundary_witness:
  "(0::real) \<le> 0 \<and> (0::real) \<le> 4
   \<and> fast_power [0, 4] 0 = [1, 1] \<and> fast_power [0, 4] (- 1) ! 0 = 0
   \<and> fast_power [0, 4] (- 1) ! 1 = 4 powr (- 1)"
  using fast_power_boundary [of "[0, 4]" "- 1"] fast_power_boundary [of "[0, 4]" 0]
  by (simp add: eval_nat_numeral)

text \<open>
  C8.  For every constructed structure function, \<^verbatim>\<open>get_H\<close> returns \<open>None\<close> exactly when
  2 is not among the exponents, and otherwise \<open>zeta\<close> at the (first) position of 2,
  divided by 2.
\<close>

theorem get_H_of_constructed:
  assumes "StructureFunction_init m q j1 j2 wtype = Inr st"
  shows "(get_H (self st) = Inr None) = (2 \<notin> set q)
       \<and> (\<forall>i<length q. q ! i = 2 \<and> (\<forall>k<i. q ! k \<noteq> 2) \<longrightarrow>
            (\<exists>zeta. sf_zeta (self st) = Some zeta
                 \<and> get_H (self st) = Inr (Some (np_div (zeta ! i) (Fin 2)))))"
proof -
  from StructureFunction_init_success [OF assms] obtain z where
    z: "sf_zeta (self st) = Some z" "sf_q (self st) = q" "length z = length q"
    by auto
  have a: "get_H (self st) = Inr None" if "2 \<notin> set q"
  proof -
    from that have "\<forall>x\<in>set q. \<not> x = 2" by auto
    then have "np_mask z (map (\<lambda>q. q = 2) q) = []" by (rule np_mask_none)
    with z show ?thesis by (simp add: get_H_def)
  qed
  have b: "get_H (self st) = Inr (Some (np_div (z ! i) (Fin 2)))"
    if "i < length q" "q ! i = 2" "\<forall>k<i. q ! k \<noteq> 2" for i
    using z that np_mask_first [of z q i "\<lambda>q. q = 2"] by (simp add: get_H_def)
  have c: "get_H (self st) \<noteq> Inr None" if "2 \<in> set q"
  proof -
    define i where "i = (LEAST i. i < length q \<and> q ! i = 2)"
    from that obtain i0 where "i0 < length q \<and> q ! i0 = 2" by (auto simp: in_set_conv_nth)
    then have "i < length q \<and> q ! i = 2" unfolding i_def by (rule LeastI)
    moreover have "\<forall>k<i. q ! k \<noteq> 2"
      using not_less_Least [of _ "\<lambda>i. i < length q \<and> q ! i = 2"] \<open>i < length q \<and> q ! i = 2\<close>
      unfolding i_def by (metis (lifting) order.strict_trans)
    ultimately show ?thesis using b [of i] by simp
  qed
  from a b c z show ?thesis by auto
qed

theorem get_H_of_constructed_witness:
  "StructureFunction_init mrq_ex [1, 2] 1 3 True = Inr sf_ex
   \<and> (1::nat) < length [1, 2 :: real] \<and> [1, 2 :: real] ! 1 = 2 \<and> [1, 2 :: real] ! 0 \<noteq> 2
   \<and> get_H (self sf_ex) = Inr (Some (Fin (1 / 7)))"
  using get_H_of_constructed [OF sf_ex_constructed, THEN conjunct2, rule_format, of 1]
    sf_ex_constructed
  by (simp add: sf_ex_def)

text \<open>
  C10.  Constructing a structure function leaves the quantity as it was: the quantity
  that the methods have threaded through is the one supplied, and the configuration
  fields are the arguments; each of \<^verbatim>\<open>_compute\<close>, \<^verbatim>\<open>_compute_zeta\<close> and the body of
  \<^verbatim>\<open>__post_init__\<close> returns the quantity it was given.  The construction is a function
  of \<open>(mrq, q, j1, j2, wtype)\<close> alone, as every definition here is.
\<close>

theorem construction_leaves_quantity_unchanged:
  "(\<forall>st. StructureFunction_init m q j1 j2 wtype = Inr st \<longrightarrow>
        mrq st = m \<and> sf_q (self st) = q \<and> sf_j1 (self st) = j1 \<and> sf_j2 (self st) = j2
      \<and> sf_wtype (self st) = wtype)
   \<and> (\<forall>st st'. SF_compute st = Inr st' \<longrightarrow> mrq st' = mrq st)
   \<and> (\<forall>st st'. SF_compute_zeta st = Inr st' \<longrightarrow> mrq st' = mrq st)
   \<and> (\<forall>st st'. SF_post_init_body st = Inr st' \<longrightarrow> mrq st' = mrq st)"
proof -
  have "mrq st = m \<and> sf_q (self st) = q \<and> sf_j1 (self st) = j1 \<and> sf_j2 (self st) = j2
      \<and> sf_wtype (self st) = wtype"
    if "StructureFunction_init m q j1 j2 wtype = Inr st" for st
    using StructureFunction_init_success [OF that] by auto
  then show ?thesis
    using SF_compute_frame SF_compute_zeta_frame SF_post_init_body_frame by blast
qed

theorem construction_leaves_quantity_unchanged_witness:
  "StructureFunction_init mrq_ex [1, 2] 1 3 True = Inr sf_ex
   \<and> mrq sf_ex = mrq_ex \<and> sf_q (self sf_ex) = [1, 2] \<and> sf_j1 (self sf_ex) = 1
   \<and> sf_j2 (self sf_ex) = 3 \<and> sf_wtype (self sf_ex)"
  using construction_leaves_quantity_unchanged [of mrq_ex "[1, 2]" 1 3 True] sf_ex_constructed
  by simp

section \<open>The loops of the multifractal spectrum compute the specification's arrays\<close>

lemma MFS_rows_spec:
  "MFS_U_row (count m j) (MFS_R_j (np_abs (coefficients m j)) qs) = map (\<lambda>q. MFS_U_entry m q j) qs"
  "MFS_V_row (np_abs (coefficients m j)) (MFS_R_j (np_abs (coefficients m j)) qs)
     = map (\<lambda>q. MFS_V_entry m q j) qs"
  by (simp_all add: MFS_U_row_def MFS_V_row_def MFS_R_j_def MFS_U_entry_def MFS_V_entry_def
      MFS_R_entry_def Let_def comp_def)

lemma dict_get_count: "dict_get (mrq_nj m) j = Inr n \<Longrightarrow> n = count m j"
  by (simp add: dict_get_def count_def split: option.splits)

lemma dict_get_coefficients: "dict_get (mrq_values m) j = Inr c \<Longrightarrow> c = coefficients m j"
  by (simp add: dict_get_def coefficients_def split: option.splits)

lemma MFS_fill_UV_enumerate:
  assumes "MFS_fill_UV m qs (enumerate n rest) (U, V) = Inr (U', V')"
    and "length U = n + length rest" and "length V = n + length rest"
  shows "U' = take n U @ map (\<lambda>j. map (\<lambda>q. MFS_U_entry m q j) qs) rest
       \<and> V' = take n V @ map (\<lambda>j. map (\<lambda>q. MFS_V_entry m q j) qs) rest
       \<and> (rest \<noteq> [] \<longrightarrow> qs \<noteq> [])"
  using assms
proof (induction rest arbitrary: n U V)
  case Nil
  then show ?case by simp
next
  case (Cons j rest)
  let ?Ur = "map (\<lambda>q. MFS_U_entry m q j) qs" and ?Vr = "map (\<lambda>q. MFS_V_entry m q j) qs"
  from Cons.prems(1) obtain nj where nj: "dict_get (mrq_nj m) j = Inr nj"
    by (cases "dict_get (mrq_nj m) j") simp_all
  from Cons.prems(1) nj obtain c where c: "dict_get (mrq_values m) j = Inr c"
    by (cases "dict_get (mrq_values m) j") simp_all
  from Cons.prems(1) nj c have qs: "qs \<noteq> []"
    by (cases "qs = []") simp_all
  have rows: "MFS_U_row nj (MFS_R_j (np_abs c) qs) = ?Ur"
    "MFS_V_row (np_abs c) (MFS_R_j (np_abs c) qs) = ?Vr"
    using MFS_rows_spec [of m j qs] dict_get_count [OF nj] dict_get_coefficients [OF c]
    by simp_all
  from Cons.prems(1) nj c qs rows
  have rec: "MFS_fill_UV m qs (enumerate (Suc n) rest) (U[n := ?Ur], V[n := ?Vr]) = Inr (U', V')"
    by (simp add: Let_def)
  have "U' = take (Suc n) (U[n := ?Ur]) @ map (\<lambda>j. map (\<lambda>q. MFS_U_entry m q j) qs) rest
       \<and> V' = take (Suc n) (V[n := ?Vr]) @ map (\<lambda>j. map (\<lambda>q. MFS_V_entry m q j) qs) rest
       \<and> (rest \<noteq> [] \<longrightarrow> qs \<noteq> [])"
    using Cons.prems(2,3) by (intro Cons.IH [OF rec]) simp_all
  moreover have "take (Suc n) (U[n := ?Ur]) = take n U @ [?Ur]"
    "take (Suc n) (V[n := ?Vr]) = take n V @ [?Vr]"
    using Cons.prems(2,3) by (simp_all add: take_Suc_conv_app_nth)
  ultimately show ?case using qs by simp
qed

lemma MFS_regress_loop_result:
  assumes "MFS_regress_loop x wj U V j1 j2 idxs (Dq, hq) = Inr (Dq', hq')"
    and "distinct idxs" and "\<forall>i\<in>set idxs. i < length Dq \<and> i < length hq"
  shows "length Dq' = length Dq \<and> length hq' = length hq
       \<and> (\<forall>i\<in>set idxs. \<exists>s1 i1 i2.
              linear_regression x (column_window U (j1 - 1) j2 i) wj = Inr (s1, i1)
            \<and> linear_regression x (column_window V (j1 - 1) j2 i) wj = Inr (hq' ! i, i2)
            \<and> Dq' ! i = np_add (Fin 1) s1)
       \<and> (\<forall>i. i \<notin> set idxs \<longrightarrow> Dq' ! i = Dq ! i \<and> hq' ! i = hq ! i)"
  using assms
proof (induction idxs arbitrary: Dq hq)
  case Nil
  then show ?case by simp
next
  case (Cons k idxs)
  let ?l1 = "linear_regression x (column_window U (j1 - 1) j2 k) wj"
  let ?l2 = "linear_regression x (column_window V (j1 - 1) j2 k) wj"
  from Cons.prems(1) obtain s1 i1 where l1: "?l1 = Inr (s1, i1)"
    by (cases ?l1) auto
  from Cons.prems(1) l1 obtain s2 i2 where l2: "?l2 = Inr (s2, i2)"
    by (cases ?l2) auto
  let ?Dq = "Dq[k := np_add (Fin 1) s1]" and ?hq = "hq[k := s2]"
  from Cons.prems(1) l1 l2
  have rec: "MFS_regress_loop x wj U V j1 j2 idxs (?Dq, ?hq) = Inr (Dq', hq')"
    by simp
  have d1: "distinct idxs" using Cons.prems(2) by simp
  have b1: "\<forall>i\<in>set idxs. i < length ?Dq \<and> i < length ?hq"
    using Cons.prems(3) by simp
  from Cons.IH [OF rec d1 b1] have r:
    "length Dq' = length Dq" "length hq' = length hq"
    "\<forall>i\<in>set idxs. \<exists>s1 i1 i2.
              linear_regression x (column_window U (j1 - 1) j2 i) wj = Inr (s1, i1)
            \<and> linear_regression x (column_window V (j1 - 1) j2 i) wj = Inr (hq' ! i, i2)
            \<and> Dq' ! i = np_add (Fin 1) s1"
    "\<forall>i. i \<notin> set idxs \<longrightarrow> Dq' ! i = ?Dq ! i \<and> hq' ! i = ?hq ! i"
    by simp_all
  from Cons.prems(2) have kn: "k \<notin> set idxs" by simp
  from Cons.prems(3) have kl: "k < length Dq" "k < length hq" by simp_all
  from r(4) kn kl have at_k: "Dq' ! k = np_add (Fin 1) s1" "hq' ! k = s2" by simp_all
  have here: "\<exists>s1 i1 i2. ?l1 = Inr (s1, i1) \<and> ?l2 = Inr (hq' ! k, i2) \<and> Dq' ! k = np_add (Fin 1) s1"
    using l1 l2 at_k by simp
  have other: "\<forall>i. i \<notin> set (k # idxs) \<longrightarrow> Dq' ! i = Dq ! i \<and> hq' ! i = hq ! i"
    using r(4) by auto
  from r(1,2,3) here other show ?case by simp
qed


lemma log2_half: "log 2 (1 / 2 :: real) = - 1"
  by (simp add: log_divide)

lemmas mfs_eval_defs = MFS_post_init_body_def MFS_compute_def MFS_weights_def MFS_R_j_def
  MFS_V_row_def MFS_U_row_def column_window_def

lemma mfs_ex_computed: "MFS_post_init_body mfs_ex0 mrq_ex = Inr mfs_ex"
  by (simp add: mfs_eval_defs eval_defs mfs_ex0_def mfs_ex_def mrq_ex_def log2_half)

lemma MFS_fill_UV_all:
  assumes "MFS_fill_UV m qs (enumerate 0 (scales m))
             (np_zeros2 (length (scales m)) (length qs), np_zeros2 (length (scales m)) (length qs))
           = Inr (U, V)"
  shows "U = MFS_U_matrix m qs" and "V = MFS_V_matrix m qs"
  using MFS_fill_UV_enumerate [OF assms] by (simp_all add: np_zeros2_def MFS_U_matrix_def MFS_V_matrix_def)

lemma MFS_weights_result:
  assumes "MFS_weights s (map real_of_int [mfs_j1 s..mfs_j2 s]) = Inr w"
    and "mfs_nj s = Some (mrq_nj m)"
  shows "w = window_weights m (mfs_j1 s) (mfs_j2 s) (mfs_wtype s)"
  using assms collect_nj_result [of "mrq_nj m" "[mfs_j1 s..mfs_j2 s]" w]
  by (auto simp: MFS_weights_def window_weights_def get_nj_interv_def count_def split: if_splits)

text \<open>What a successful run of the body of \<^verbatim>\<open>__post_init__\<close> has stored.\<close>

lemma MFS_post_init_body_success:
  assumes "MFS_post_init_body s m = Inr s'"
  shows "\<exists>Dq hq.
           s' = s\<lparr>mfs_name := Some (mrq_name m), mfs_nj := Some (mrq_nj m),
                   mfs_j := Some (scales m),
                   mfs_U := Some (MFS_U_matrix m (mfs_q s)),
                   mfs_V := Some (MFS_V_matrix m (mfs_q s)),
                   mfs_Dq := Some Dq, mfs_hq := Some hq\<rparr>
         \<and> length Dq = length (mfs_q s) \<and> length hq = length (mfs_q s)
         \<and> (\<forall>i<length (mfs_q s). \<exists>s1 i1 i2.
               linear_regression (map real_of_int [mfs_j1 s..mfs_j2 s])
                 (column_window (MFS_U_matrix m (mfs_q s)) (mfs_j1 s - 1) (mfs_j2 s) i)
                 (window_weights m (mfs_j1 s) (mfs_j2 s) (mfs_wtype s)) = Inr (s1, i1)
             \<and> linear_regression (map real_of_int [mfs_j1 s..mfs_j2 s])
                 (column_window (MFS_V_matrix m (mfs_q s)) (mfs_j1 s - 1) (mfs_j2 s) i)
                 (window_weights m (mfs_j1 s) (mfs_j2 s) (mfs_wtype s)) = Inr (hq ! i, i2)
             \<and> Dq ! i = np_add (Fin 1) s1)"
proof -
  let ?q = "mfs_q s" and ?n = "length (scales m)"
  let ?s0 = "s\<lparr>mfs_name := Some (mrq_name m), mfs_nj := Some (mrq_nj m),
                 mfs_j := Some (scales m)\<rparr>"
  let ?x = "map real_of_int [mfs_j1 s..mfs_j2 s]"
  let ?z = "replicate (length ?q) (Fin 0)"
  have c: "MFS_compute ?s0 m = Inr s'"
    using assms by (simp add: MFS_post_init_body_def scales_def dict_keys_def)
  let ?fill = "MFS_fill_UV m ?q (enumerate 0 (scales m))
                 (np_zeros2 ?n (length ?q), np_zeros2 ?n (length ?q))"
  have unf: "MFS_compute ?s0 m =
      (case ?fill of
         Inl e \<Rightarrow> Inl e
       | Inr (U, V) \<Rightarrow>
          (case MFS_weights (?s0\<lparr>mfs_U := Some U, mfs_V := Some V\<rparr>) ?x of
             Inl e \<Rightarrow> Inl e
           | Inr wj \<Rightarrow>
              (case MFS_regress_loop ?x wj U V (mfs_j1 s) (mfs_j2 s) [0..<length ?q] (?z, ?z) of
                 Inl e \<Rightarrow> Inl e
               | Inr (Dq, hq) \<Rightarrow>
                   Inr (?s0\<lparr>mfs_U := Some U, mfs_V := Some V, mfs_Dq := Some Dq,
                            mfs_hq := Some hq\<rparr>))))"
    by (simp add: MFS_compute_def np_arange_def Let_def split: sum.split prod.split)
  from c unf obtain U V where f: "?fill = Inr (U, V)"
    by (cases ?fill) auto
  from MFS_fill_UV_all [OF f] have UV: "U = MFS_U_matrix m ?q" "V = MFS_V_matrix m ?q"
    by simp_all
  let ?s1 = "?s0\<lparr>mfs_U := Some U, mfs_V := Some V\<rparr>"
  from c unf f obtain w where w: "MFS_weights ?s1 ?x = Inr w"
    by (cases "MFS_weights ?s1 ?x") auto
  have w': "w = window_weights m (mfs_j1 s) (mfs_j2 s) (mfs_wtype s)"
    using MFS_weights_result [of ?s1 w m] w by simp
  let ?loop = "MFS_regress_loop ?x w U V (mfs_j1 s) (mfs_j2 s) [0..<length ?q] (?z, ?z)"
  from c unf f w obtain Dq hq where l: "?loop = Inr (Dq, hq)"
    by (cases ?loop) auto
  from c unf f w l have s': "s' = ?s1\<lparr>mfs_Dq := Some Dq, mfs_hq := Some hq\<rparr>"
    by simp
  from MFS_regress_loop_result [OF l] have r:
    "length Dq = length ?q" "length hq = length ?q"
    "\<forall>i\<in>set [0..<length ?q]. \<exists>s1 i1 i2.
              linear_regression ?x (column_window U (mfs_j1 s - 1) (mfs_j2 s) i) w = Inr (s1, i1)
            \<and> linear_regression ?x (column_window V (mfs_j1 s - 1) (mfs_j2 s) i) w = Inr (hq ! i, i2)
            \<and> Dq ! i = np_add (Fin 1) s1"
    by simp_all
  show ?thesis
    using s' r UV w' by (intro exI [of _ Dq] exI [of _ hq]) simp
qed










section \<open>The multifractal spectrum: the claims\<close>





text \<open>
  C4.  For every input, constructing a \<^verbatim>\<open>MultifractalSpectrum\<close> raises \<^verbatim>\<open>TypeError\<close>: the
  generated \<^verbatim>\<open>__init__\<close> passes the single \<^verbatim>\<open>InitVar\<close> argument, and \<^verbatim>\<open>__post_init__\<close>
  declares four parameters.
\<close>

theorem MultifractalSpectrum_init_raises_TypeError:
  "MultifractalSpectrum_init m j1 j2 wtype q = Inl TypeError"
  by (simp add: MultifractalSpectrum_init_def)

section \<open>Errors of a construction\<close>

lemma linear_regression_errors:
  "linear_regression x y w = Inl e \<Longrightarrow> e = ValueError \<or> e = DegenerateRegressionError"
  by (simp add: linear_regression_def Let_def split: if_splits)

lemma linear_regression_one_point: "linear_regression [a] y w \<noteq> Inr r"
  by (simp add: linear_regression_def)

lemma collect_nj_errors: "collect_nj nj js = Inl e \<Longrightarrow> e = KeyError"
  by (induction js) (auto simp: dict_get_def split: option.splits sum.splits)

lemma SF_zeta_loop_errors:
  assumes "SF_zeta_loop x nj a b idxs s = Inl e"
    and "sf_logvalues s = Some lv" and "sf_zeta s = Some z" and "sf_intercept s = Some ic"
    and "\<forall>i\<in>set idxs. i < length lv"
  shows "e = ValueError \<or> e = DegenerateRegressionError"
  using assms
proof (induction idxs arbitrary: s z ic)
  case Nil
  then show ?case by simp
next
  case (Cons k idxs)
  let ?lr = "linear_regression x (py_slice (lv ! k) a (b + 1)) nj"
  from Cons.prems(5) have k: "\<not> length lv \<le> k" by simp
  have eq: "SF_zeta_loop x nj a b (k # idxs) s =
        (case ?lr of
           Inl e \<Rightarrow> Inl e
         | Inr (slope, intercept) \<Rightarrow>
             SF_zeta_loop x nj a b idxs
               (s\<lparr>sf_zeta := Some (z[k := slope]), sf_intercept := Some (ic[k := intercept])\<rparr>))"
    using k by (simp add: Cons.prems(2,3,4) split: sum.split)
  show ?case
  proof (cases ?lr)
    case (Inl e')
    with Cons.prems(1) eq have "e = e'" by simp
    with Inl linear_regression_errors show ?thesis by blast
  next
    case (Inr p)
    obtain sl it where p: "p = (sl, it)" by (cases p)
    let ?s1 = "s\<lparr>sf_zeta := Some (z[k := sl]), sf_intercept := Some (ic[k := it])\<rparr>"
    from Cons.prems(1) eq Inr p have rec: "SF_zeta_loop x nj a b idxs ?s1 = Inl e" by simp
    have "sf_logvalues ?s1 = Some lv" "sf_zeta ?s1 = Some (z[k := sl])"
      "sf_intercept ?s1 = Some (ic[k := it])" "\<forall>i\<in>set idxs. i < length lv"
      using Cons.prems(2,5) by simp_all
    from Cons.IH [OF rec this] show ?thesis .
  qed
qed

lemma StructureFunction_init_errors:
  assumes "StructureFunction_init m q j1 j2 wtype = Inl e"
  shows "e = KeyError \<or> e = ValueError \<or> e = DegenerateRegressionError"
proof -
  let ?s0 = "\<lparr>sf_name = None, sf_q = q, sf_j1 = j1, sf_j2 = j2, sf_wtype = wtype, sf_j = None,
        sf_values = None, sf_logvalues = None, sf_zeta = None, sf_intercept = None\<rparr>"
  let ?st1 = "\<lparr>self = ?s0\<lparr>sf_name := Some (mrq_name m),
                 sf_j := Some (dict_keys (mrq_values m))\<rparr>, mrq = m\<rparr>"
  let ?st2 = "?st1\<lparr>self := (self ?st1)\<lparr>sf_logvalues := Some (SF_logvalues_spec m q)\<rparr>\<rparr>"
  have c: "SF_compute ?st1 = Inr ?st2"
    using SF_compute_result [of ?st1] by simp
  from assms have z: "SF_compute_zeta ?st2 = Inl e"
    using c by (simp add: StructureFunction_init_def SF_post_init_body_def)
  let ?s3 = "(self ?st2)\<lparr>sf_zeta := Some (replicate (length q) (Fin 0)),
                         sf_intercept := Some (replicate (length q) (Fin 0))\<rparr>"
  let ?x = "map real_of_int [j1..j2]"
  have unf: "SF_compute_zeta ?st2 =
      (case SF_weights ?st2 ?x of
         Inl e \<Rightarrow> Inl e
       | Inr nj \<Rightarrow>
          (case SF_zeta_loop ?x nj (j1 - 1) (j2 - 1) [0..<length q] ?s3 of
             Inl e \<Rightarrow> Inl e
           | Inr s \<Rightarrow> Inr (?st2\<lparr>self := s\<rparr>)))"
    by (simp add: SF_compute_zeta_def np_arange_def Let_def split: sum.split)
  show ?thesis
  proof (cases "SF_weights ?st2 ?x")
    case (Inl e')
    with z unf have "e = e'" by simp
    with Inl collect_nj_errors [of "mrq_nj m" "[j1..j2]" e] show ?thesis
      by (simp add: SF_weights_def get_nj_interv_def split: if_splits)
  next
    case (Inr w)
    let ?loop = "SF_zeta_loop ?x w (j1 - 1) (j2 - 1) [0..<length q] ?s3"
    from z unf Inr have l: "?loop = Inl e"
      by (cases ?loop) simp_all
    have "sf_logvalues ?s3 = Some (SF_logvalues_spec m q)"
      "sf_zeta ?s3 = Some (replicate (length q) (Fin 0))"
      "sf_intercept ?s3 = Some (replicate (length q) (Fin 0))"
      "\<forall>i\<in>set [0..<length q]. i < length (SF_logvalues_spec m q)"
      by (simp_all add: SF_logvalues_spec_def SF_values_spec_def)
    from SF_zeta_loop_errors [OF l this] show ?thesis by simp
  qed
qed

lemma zero_moment:
  assumes "xs \<noteq> []" and "\<forall>c\<in>set xs. c = 0" and "q \<noteq> 0"
  shows "np_log2 (np_mean (fast_power (np_abs xs) q)) = NInf"
proof -
  have "fast_power (np_abs xs) q = replicate (length xs) 0"
    using assms(2,3) by (auto simp: fast_power_def np_abs_def power_elem_def map_replicate_const
        intro!: replicate_eqI)
  then show ?thesis using assms(1) by (simp add: np_mean_def sum_list_replicate)
qed

lemma np_sum_NaN: "np_sum (NaN # xs) = NaN"
  by (simp add: np_sum_def)

lemma zero_mass:
  assumes "xs \<noteq> []" and "\<forall>c\<in>set xs. c = 0" and "q \<noteq> 0"
  shows "map (\<lambda>a. np_div (Fin a) (Fin (sum_list (fast_power (np_abs xs) q))))
           (fast_power (np_abs xs) q) = replicate (length xs) NaN"
proof -
  have "fast_power (np_abs xs) q = replicate (length xs) 0"
    using assms(2,3) by (auto simp: fast_power_def np_abs_def power_elem_def map_replicate_const
        intro!: replicate_eqI)
  then show ?thesis by (simp add: sum_list_replicate map_replicate_const)
qed

lemma zero_scale_spectrum:
  assumes "coefficients m j \<noteq> []" and "\<forall>c\<in>set (coefficients m j). c = 0" and "q \<noteq> 0"
  shows "MFS_V_entry m q j = NaN" and "MFS_U_entry m q j = NaN"
proof -
  obtain n where n: "length (coefficients m j) = Suc n"
    using assms(1) by (cases "coefficients m j") auto
  have R: "MFS_R_entry m q j = NaN # replicate n NaN"
    using zero_mass [OF assms] n by (simp add: MFS_R_entry_def Let_def)
  obtain a as where c: "np_abs (coefficients m j) = a # as"
    using assms(1) by (cases "coefficients m j") (auto simp: np_abs_def)
  show "MFS_V_entry m q j = NaN"
    by (simp add: MFS_V_entry_def R c np_sum_NaN)
  show "MFS_U_entry m q j = NaN"
    by (simp add: MFS_U_entry_def R np_sum_NaN)
qed

lemma sf_zero_constructed: "StructureFunction_init mrq_zero [1] 1 3 False = Inr sf_zero"
  by (simp add: eval_defs mrq_zero_def sf_zero_def)

lemma mfs_zero_computed: "MFS_post_init_body mfs_ex0 mrq_zero = Inr mfs_zero"
  by (simp add: mfs_eval_defs eval_defs mfs_ex0_def mfs_zero_def mrq_zero_def log2_half)

text \<open>
  A window of one point \<open>j1 = j2 = j\<close> with \<open>1 \<le> j\<close> at most the number of scales: the
  regression gets one abscissa, one ordinate and one weight, and fails as degenerate.
\<close>

lemma collect_nj_one:
  "j \<in> set (dict_keys nj) \<Longrightarrow> \<exists>n. collect_nj nj [j] = Inr [n]"
  by (cases "map_of nj j") (auto simp: dict_get_def dict_keys_def map_of_eq_None_iff)

lemma one_point_window_regression:
  assumes "StructureFunction_init m q j j wtype = Inl e" and "q \<noteq> []"
    and "1 \<le> j" and "j \<le> int (length (scales m))"
    and "wtype \<longrightarrow> j \<in> set (dict_keys (mrq_nj m))"
  shows "e = DegenerateRegressionError"
proof -
  let ?s0 = "\<lparr>sf_name = None, sf_q = q, sf_j1 = j, sf_j2 = j, sf_wtype = wtype, sf_j = None,
        sf_values = None, sf_logvalues = None, sf_zeta = None, sf_intercept = None\<rparr>"
  let ?st1 = "\<lparr>self = ?s0\<lparr>sf_name := Some (mrq_name m),
                 sf_j := Some (dict_keys (mrq_values m))\<rparr>, mrq = m\<rparr>"
  let ?st2 = "?st1\<lparr>self := (self ?st1)\<lparr>sf_logvalues := Some (SF_logvalues_spec m q)\<rparr>\<rparr>"
  have c: "SF_compute ?st1 = Inr ?st2"
    using SF_compute_result [of ?st1] by simp
  from assms(1) have z: "SF_compute_zeta ?st2 = Inl e"
    using c by (simp add: StructureFunction_init_def SF_post_init_body_def)
  let ?s3 = "(self ?st2)\<lparr>sf_zeta := Some (replicate (length q) (Fin 0)),
                         sf_intercept := Some (replicate (length q) (Fin 0))\<rparr>"
  let ?x = "[real_of_int j]"
  have unf: "SF_compute_zeta ?st2 =
      (case SF_weights ?st2 ?x of
         Inl e \<Rightarrow> Inl e
       | Inr nj \<Rightarrow>
          (case SF_zeta_loop ?x nj (j - 1) (j - 1) [0..<length q] ?s3 of
             Inl e \<Rightarrow> Inl e
           | Inr s \<Rightarrow> Inr (?st2\<lparr>self := s\<rparr>)))"
    by (simp add: SF_compute_zeta_def np_arange_def Let_def split: sum.split)
  obtain n where w: "SF_weights ?st2 ?x = Inr [n]"
    using assms(5) collect_nj_one [of j "mrq_nj m"]
    by (cases wtype) (auto simp: SF_weights_def get_nj_interv_def)
  let ?row = "SF_logvalues_spec m q ! 0"
  from assms(2) have lq: "0 < length q" by simp
  then have "length ?row = length (scales m)"
    by (simp add: SF_logvalues_spec_def SF_values_spec_def)
  with assms(3,4) have y: "py_slice ?row (j - 1) j = [?row ! nat (j - 1)]"
    using py_slice_window [of j j ?row] by simp
  from lq have idx: "[0..<length q] = 0 # [1..<length q]"
    by (simp add: upt_rec)
  have "SF_zeta_loop ?x [n] (j - 1) (j - 1) [0..<length q] ?s3 = Inl DegenerateRegressionError"
    unfolding idx using lq y
    by (simp add: linear_regression_def SF_logvalues_spec_def SF_values_spec_def)
  with z unf w show ?thesis by simp
qed

section \<open>Windows and zero scales: the claims\<close>

text \<open>
  C6, as the code has it.  The specification asks for \<^verbatim>\<open>InvalidWindowError\<close> when \<open>j1 = j2\<close> or when
  the window leaves the available scales.  The code validates no window: no construction of
  a structure function raises \<^verbatim>\<open>InvalidWindowError\<close>.  With \<open>j1 = j2\<close>, at least one
  exponent, \<open>1 \<le> j1\<close> at most the number of scales and, when the weighting flag is set, a
  count stored for the scale \<open>j1\<close>, the construction fails with the regression's
  \<^verbatim>\<open>DegenerateRegressionError\<close> rather than producing an estimator.
\<close>

theorem one_point_window_fails_in_regression:
  "StructureFunction_init m q j1 j2 wtype \<noteq> Inl InvalidWindowError
   \<and> (j1 = j2 \<and> q \<noteq> [] \<and> 1 \<le> j1 \<and> j1 \<le> int (length (scales m))
        \<and> (wtype \<longrightarrow> j1 \<in> set (dict_keys (mrq_nj m))) \<longrightarrow>
        StructureFunction_init m q j1 j2 wtype = Inl DegenerateRegressionError)"
proof -
  have a: "StructureFunction_init m q j1 j2 wtype \<noteq> Inl InvalidWindowError"
    using StructureFunction_init_errors [of m q j1 j2 wtype InvalidWindowError] by auto
  have b: "StructureFunction_init m q j1 j2 wtype = Inl DegenerateRegressionError"
    if h: "j1 = j2" "q \<noteq> []" "1 \<le> j1" "j1 \<le> int (length (scales m))"
      "wtype \<longrightarrow> j1 \<in> set (dict_keys (mrq_nj m))"
  proof (cases "StructureFunction_init m q j1 j2 wtype")
    case (Inl e)
    with h(1) have "StructureFunction_init m q j1 j1 wtype = Inl e" by simp
    from one_point_window_regression [OF this h(2-5)] Inl show ?thesis by simp
  next
    case (Inr st)
    from StructureFunction_init_success [OF Inr] h(1,2) obtain r where
      "linear_regression (map real_of_int [j2..j2])
         (py_slice (SF_logvalues_spec m q ! 0) (j2 - 1) j2) (window_weights m j2 j2 wtype) = Inr r"
      by auto
    with linear_regression_one_point show ?thesis by simp
  qed
  from a b show ?thesis by blast
qed

theorem one_point_window_fails_in_regression_witness:
  "(2::int) = 2 \<and> [1 :: real] \<noteq> [] \<and> (1::int) \<le> 2 \<and> (2::int) \<le> int (length (scales mrq_ex))
   \<and> 2 \<in> set (dict_keys (mrq_nj mrq_ex))
   \<and> StructureFunction_init mrq_ex [1] 2 2 True = Inl DegenerateRegressionError
   \<and> StructureFunction_init mrq_ex [1] 2 2 True \<noteq> Inl InvalidWindowError"
proof -
  have h: "(2::int) \<le> int (length (scales mrq_ex))" "2 \<in> set (dict_keys (mrq_nj mrq_ex))"
    by (simp_all add: scales_def dict_keys_def mrq_ex_def)
  with one_point_window_fails_in_regression [of mrq_ex "[1]" 2 2 True] show ?thesis by simp
qed


text \<open>
  C6 as stated fails: with \<open>j1 = j2 = 2\<close> the error is the regression's, not
  \<^verbatim>\<open>InvalidWindowError\<close>; and the window \<open>j1 = -2\<close>, \<open>j2 = -1\<close>, outside the scales
  \<open>1, 2, 3\<close>, raises nothing: the slice wraps around and a populated estimator results.
\<close>

theorem window_not_validated_counterexample:
  "StructureFunction_init mrq_ex [1] 2 2 False = Inl DegenerateRegressionError
   \<and> StructureFunction_init mrq_ex [1] 2 2 False \<noteq> Inl InvalidWindowError
   \<and> scales mrq_ex = [1, 2, 3]
   \<and> StructureFunction_init mrq_ex [1] (- 2) (- 1) False = Inr sf_neg
   \<and> sf_zeta (self sf_neg) = Some [Fin 1]"
  by (simp add: eval_defs mrq_ex_def sf_neg_def scales_def)


text \<open>
  C7, as the code has it.  The specification asks for \<^verbatim>\<open>ZeroMassError\<close> or \<^verbatim>\<open>EmptyScaleError\<close> when a
  scale of the window has an all-zero coefficient array.  No construction raises either.
  Where a scale has a non-empty all-zero coefficient array and the exponent is not 0, a
  constructed structure function holds \<^verbatim>\<open>-inf\<close> in \<^verbatim>\<open>logvalues\<close> at that scale, and
  the spectrum's \<^verbatim>\<open>_compute\<close> holds \<^verbatim>\<open>nan\<close> in \<open>U\<close> and \<open>V\<close> there.
\<close>

theorem zero_scale_is_not_rejected:
  "StructureFunction_init m q j1 j2 wtype \<noteq> Inl ZeroMassError
   \<and> StructureFunction_init m q j1 j2 wtype \<noteq> Inl EmptyScaleError
   \<and> (iq < length q \<and> ij < length (scales m) \<and> q ! iq \<noteq> 0
        \<and> coefficients m (scales m ! ij) \<noteq> []
        \<and> (\<forall>c\<in>set (coefficients m (scales m ! ij)). c = 0) \<longrightarrow>
        (\<forall>st. StructureFunction_init m q j1 j2 wtype = Inr st \<longrightarrow>
           (\<exists>lv. sf_logvalues (self st) = Some lv \<and> lv ! iq ! ij = NInf))
      \<and> (\<forall>s s'. mfs_q s = q \<and> MFS_post_init_body s m = Inr s' \<longrightarrow>
           (\<exists>U V. mfs_U s' = Some U \<and> mfs_V s' = Some V
                \<and> U ! ij ! iq = NaN \<and> V ! ij ! iq = NaN)))"
proof -
  have a: "StructureFunction_init m q j1 j2 wtype \<noteq> Inl ZeroMassError"
    "StructureFunction_init m q j1 j2 wtype \<noteq> Inl EmptyScaleError"
    using StructureFunction_init_errors [of m q j1 j2 wtype] by auto
  have b: "\<exists>lv. sf_logvalues (self st) = Some lv \<and> lv ! iq ! ij = NInf"
    if "iq < length q" "ij < length (scales m)" "q ! iq \<noteq> 0"
      "coefficients m (scales m ! ij) \<noteq> []" "\<forall>c\<in>set (coefficients m (scales m ! ij)). c = 0"
      "StructureFunction_init m q j1 j2 wtype = Inr st" for st
  proof -
    from StructureFunction_init_success [OF that(6)]
    have "sf_logvalues (self st) = Some (SF_logvalues_spec m q)" by auto
    moreover have "SF_logvalues_spec m q ! iq ! ij = NInf"
      using that(1,2) zero_moment [OF that(4,5,3)]
      by (simp add: SF_logvalues_spec_def SF_values_spec_def S_moment_def)
    ultimately show ?thesis by simp
  qed
  have c: "\<exists>U V. mfs_U s' = Some U \<and> mfs_V s' = Some V \<and> U ! ij ! iq = NaN \<and> V ! ij ! iq = NaN"
    if "iq < length q" "ij < length (scales m)" "q ! iq \<noteq> 0"
      "coefficients m (scales m ! ij) \<noteq> []" "\<forall>c\<in>set (coefficients m (scales m ! ij)). c = 0"
      "mfs_q s = q" "MFS_post_init_body s m = Inr s'" for s s'
  proof -
    from MFS_post_init_body_success [OF that(7)] that(6)
    have "mfs_U s' = Some (MFS_U_matrix m q)" "mfs_V s' = Some (MFS_V_matrix m q)" by auto
    moreover have "MFS_U_matrix m q ! ij ! iq = NaN" "MFS_V_matrix m q ! ij ! iq = NaN"
      using that(1,2) zero_scale_spectrum [OF that(4,5,3)]
      by (simp_all add: MFS_U_matrix_def MFS_V_matrix_def)
    ultimately show ?thesis by simp
  qed
  from a b c show ?thesis by blast
qed


theorem zero_scale_is_not_rejected_witness:
  "(0::nat) < length [1 :: real] \<and> (1::nat) < length (scales mrq_zero) \<and> [1 :: real] ! 0 \<noteq> 0
   \<and> coefficients mrq_zero (scales mrq_zero ! 1) = [0, 0]
   \<and> StructureFunction_init mrq_zero [1] 1 3 False = Inr sf_zero
   \<and> (\<exists>lv. sf_logvalues (self sf_zero) = Some lv \<and> lv ! 0 ! 1 = NInf)
   \<and> mfs_q mfs_ex0 = [1] \<and> MFS_post_init_body mfs_ex0 mrq_zero = Inr mfs_zero
   \<and> (\<exists>U V. mfs_U mfs_zero = Some U \<and> mfs_V mfs_zero = Some V
          \<and> U ! 1 ! 0 = NaN \<and> V ! 1 ! 0 = NaN)"
proof -
  have h: "(0::nat) < length [1 :: real]" "(1::nat) < length (scales mrq_zero)"
    "[1 :: real] ! 0 \<noteq> 0" "coefficients mrq_zero (scales mrq_zero ! 1) = [0, 0]"
    "mfs_q mfs_ex0 = [1]"
    by (simp_all add: scales_def coefficients_def mrq_zero_def mfs_ex0_def)
  have z: "coefficients mrq_zero (scales mrq_zero ! 1) \<noteq> []"
    "\<forall>c\<in>set (coefficients mrq_zero (scales mrq_zero ! 1)). c = 0"
    unfolding h(4) by simp_all
  from zero_scale_is_not_rejected [of mrq_zero "[1]" 1 3 False 0 1] h z
    sf_zero_constructed mfs_zero_computed
  have "(\<exists>lv. sf_logvalues (self sf_zero) = Some lv \<and> lv ! 0 ! 1 = NInf)"
    "(\<exists>U V. mfs_U mfs_zero = Some U \<and> mfs_V mfs_zero = Some V
          \<and> U ! 1 ! 0 = NaN \<and> V ! 1 ! 0 = NaN)"
    by blast+
  with h sf_zero_constructed mfs_zero_computed show ?thesis by blast
qed

text \<open>
  C7 as stated fails: scale 2 of the example is all zero, inside the window \<open>[1, 3]\<close>,
  with \<open>q = [1]\<close>; the construction returns an estimator whose \<^verbatim>\<open>logvalues\<close> holds
  \<^verbatim>\<open>-inf\<close> and whose \<open>zeta\<close> is \<^verbatim>\<open>nan\<close>.
\<close>

theorem zero_scale_counterexample:
  "coefficients mrq_zero 2 = [0, 0]
   \<and> StructureFunction_init mrq_zero [1] 1 3 False = Inr sf_zero
   \<and> sf_logvalues (self sf_zero) = Some [[Fin 0, NInf, Fin 0]]
   \<and> sf_zeta (self sf_zero) = Some [NaN]"
  using sf_zero_constructed by (simp add: sf_zero_def coefficients_def mrq_zero_def)

section \<open>What the regression outputs depend on\<close>

lemma slice_positions_bound: "p \<in> set (slice_positions n a b) \<Longrightarrow> p < n"
  by (auto simp: slice_positions_def slice_bound_def split: if_splits)

lemma py_slice_cong:
  assumes "length xs = length ys"
    and "\<forall>p\<in>set (slice_positions (length xs) a b). xs ! p = ys ! p"
  shows "py_slice xs a b = py_slice ys a b"
  using assms by (simp add: py_slice_def)

lemma window_weights_cong:
  assumes "wtype \<longrightarrow> (\<forall>j\<in>set [j1..j2]. count a j = count b j)"
  shows "window_weights a j1 j2 wtype = window_weights b j1 j2 wtype"
  using assms by (simp add: window_weights_def)

lemma logvalues_window_cong:
  assumes "scales a = scales b" and "i < length q"
    and "\<forall>p\<in>set (slice_positions (length (scales a)) lo hi).
           coefficients a (scales a ! p) = coefficients b (scales a ! p)"
  shows "py_slice (SF_logvalues_spec a q ! i) lo hi = py_slice (SF_logvalues_spec b q ! i) lo hi"
proof (rule py_slice_cong)
  show "length (SF_logvalues_spec a q ! i) = length (SF_logvalues_spec b q ! i)"
    using assms(1,2) by (simp add: SF_logvalues_spec_def SF_values_spec_def)
  have len: "length (SF_logvalues_spec a q ! i) = length (scales a)"
    using assms(2) by (simp add: SF_logvalues_spec_def SF_values_spec_def)
  show "\<forall>p\<in>set (slice_positions (length (SF_logvalues_spec a q ! i)) lo hi).
          SF_logvalues_spec a q ! i ! p = SF_logvalues_spec b q ! i ! p"
    unfolding len
  proof
    fix p assume p: "p \<in> set (slice_positions (length (scales a)) lo hi)"
    then have "p < length (scales a)" by (rule slice_positions_bound)
    moreover from p assms(3)
    have "coefficients a (scales a ! p) = coefficients b (scales a ! p)" by blast
    ultimately show "SF_logvalues_spec a q ! i ! p = SF_logvalues_spec b q ! i ! p"
      using assms(1,2) by (simp add: SF_logvalues_spec_def SF_values_spec_def S_moment_def)
  qed
qed

lemma spectrum_window_cong:
  assumes "scales a = scales b" and "i < length q"
    and "\<forall>p\<in>set (slice_positions (length (scales a)) lo hi).
           coefficients a (scales a ! p) = coefficients b (scales a ! p)
         \<and> count a (scales a ! p) = count b (scales a ! p)"
  shows "column_window (MFS_U_matrix a q) lo hi i = column_window (MFS_U_matrix b q) lo hi i"
    and "column_window (MFS_V_matrix a q) lo hi i = column_window (MFS_V_matrix b q) lo hi i"
proof -
  have eq: "MFS_U_entry a (q ! i) (scales a ! p) = MFS_U_entry b (q ! i) (scales a ! p)
          \<and> MFS_V_entry a (q ! i) (scales a ! p) = MFS_V_entry b (q ! i) (scales a ! p)"
    if "p \<in> set (slice_positions (length (scales a)) lo hi)" for p
    using that assms(3) by (simp add: MFS_U_entry_def MFS_V_entry_def MFS_R_entry_def)
  have nth: "MFS_U_matrix m q ! p ! i = MFS_U_entry m (q ! i) (scales m ! p)"
    "MFS_V_matrix m q ! p ! i = MFS_V_entry m (q ! i) (scales m ! p)"
    if "p < length (scales m)" for m p
    using that assms(2) by (simp_all add: MFS_U_matrix_def MFS_V_matrix_def)
  have len: "length (MFS_U_matrix m q) = length (scales m)"
    "length (MFS_V_matrix m q) = length (scales m)" for m
    by (simp_all add: MFS_U_matrix_def MFS_V_matrix_def)
  show "column_window (MFS_U_matrix a q) lo hi i = column_window (MFS_U_matrix b q) lo hi i"
    unfolding column_window_def py_slice_def len
    using eq nth slice_positions_bound assms(1) by (auto simp: comp_def)
  show "column_window (MFS_V_matrix a q) lo hi i = column_window (MFS_V_matrix b q) lo hi i"
    unfolding column_window_def py_slice_def len
    using eq nth slice_positions_bound assms(1) by (auto simp: comp_def)
qed

text \<open>
  C9, as the code has it.  Two quantities with the same scale list that agree on the
  coefficient arrays and the counts at the list positions that the window slice
  \<^verbatim>\<open>[j1-1 : j2]\<close> selects, and, when the weighting flag is set, on the counts of the scales
  \<open>j1, \<dots>, j2\<close> that the weights read, give the same regression outputs whenever both
  computations return: \<open>zeta\<close> and \<open>intercept\<close> of the structure function, \<open>Dq\<close> and \<open>hq\<close>
  of the spectrum's \<^verbatim>\<open>_compute\<close>.
\<close>

theorem window_noninterference:
  assumes "scales a = scales b"
    and "\<forall>p\<in>set (slice_positions (length (scales a)) (j1 - 1) j2).
           coefficients a (scales a ! p) = coefficients b (scales a ! p)
         \<and> count a (scales a ! p) = count b (scales a ! p)"
    and "wtype \<longrightarrow> (\<forall>j\<in>set [j1..j2]. count a j = count b j)"
  shows "(\<forall>sa sb. StructureFunction_init a q j1 j2 wtype = Inr sa
               \<and> StructureFunction_init b q j1 j2 wtype = Inr sb \<longrightarrow>
             sf_zeta (self sa) = sf_zeta (self sb)
           \<and> sf_intercept (self sa) = sf_intercept (self sb))
       \<and> (\<forall>s ma mb. mfs_q s = q \<and> mfs_j1 s = j1 \<and> mfs_j2 s = j2 \<and> mfs_wtype s = wtype
               \<and> MFS_post_init_body s a = Inr ma \<and> MFS_post_init_body s b = Inr mb \<longrightarrow>
             mfs_Dq ma = mfs_Dq mb \<and> mfs_hq ma = mfs_hq mb)"
proof -
  have w: "window_weights a j1 j2 wtype = window_weights b j1 j2 wtype"
    using assms(3) by (rule window_weights_cong)
  have sf: "sf_zeta (self sa) = sf_zeta (self sb) \<and> sf_intercept (self sa) = sf_intercept (self sb)"
    if a: "StructureFunction_init a q j1 j2 wtype = Inr sa"
      and b: "StructureFunction_init b q j1 j2 wtype = Inr sb" for sa sb
  proof -
    from StructureFunction_init_success [OF a] obtain za ia where ra:
      "sf_zeta (self sa) = Some za" "sf_intercept (self sa) = Some ia"
      "length za = length q" "length ia = length q"
      "\<forall>i<length q.
          linear_regression (map real_of_int [j1..j2])
            (py_slice (SF_logvalues_spec a q ! i) (j1 - 1) j2)
            (window_weights a j1 j2 wtype) = Inr (za ! i, ia ! i)"
      by auto
    from StructureFunction_init_success [OF b] obtain zb ib where rb:
      "sf_zeta (self sb) = Some zb" "sf_intercept (self sb) = Some ib"
      "length zb = length q" "length ib = length q"
      "\<forall>i<length q.
          linear_regression (map real_of_int [j1..j2])
            (py_slice (SF_logvalues_spec b q ! i) (j1 - 1) j2)
            (window_weights b j1 j2 wtype) = Inr (zb ! i, ib ! i)"
      by auto
    have "za ! i = zb ! i \<and> ia ! i = ib ! i" if i: "i < length q" for i
    proof -
      have "py_slice (SF_logvalues_spec a q ! i) (j1 - 1) j2
              = py_slice (SF_logvalues_spec b q ! i) (j1 - 1) j2"
        using assms(1) i assms(2) by (intro logvalues_window_cong) auto
      with ra(5) rb(5) w i show ?thesis by auto
    qed
    then have "za = zb" "ia = ib"
      using ra(3,4) rb(3,4) by (auto intro: nth_equalityI)
    with ra(1,2) rb(1,2) show ?thesis by simp
  qed
  have mfs: "mfs_Dq ma = mfs_Dq mb \<and> mfs_hq ma = mfs_hq mb"
    if c: "mfs_q s = q" "mfs_j1 s = j1" "mfs_j2 s = j2" "mfs_wtype s = wtype"
      and a: "MFS_post_init_body s a = Inr ma" and b: "MFS_post_init_body s b = Inr mb"
    for s ma mb
  proof -
    from MFS_post_init_body_success [OF a] c obtain Da ha where ra:
      "mfs_Dq ma = Some Da" "mfs_hq ma = Some ha" "length Da = length q" "length ha = length q"
      "\<forall>i<length q. \<exists>s1 i1 i2.
          linear_regression (map real_of_int [j1..j2])
            (column_window (MFS_U_matrix a q) (j1 - 1) j2 i) (window_weights a j1 j2 wtype)
            = Inr (s1, i1)
        \<and> linear_regression (map real_of_int [j1..j2])
            (column_window (MFS_V_matrix a q) (j1 - 1) j2 i) (window_weights a j1 j2 wtype)
            = Inr (ha ! i, i2)
        \<and> Da ! i = np_add (Fin 1) s1"
      by auto
    from MFS_post_init_body_success [OF b] c obtain Db hb where rb:
      "mfs_Dq mb = Some Db" "mfs_hq mb = Some hb" "length Db = length q" "length hb = length q"
      "\<forall>i<length q. \<exists>s1 i1 i2.
          linear_regression (map real_of_int [j1..j2])
            (column_window (MFS_U_matrix b q) (j1 - 1) j2 i) (window_weights b j1 j2 wtype)
            = Inr (s1, i1)
        \<and> linear_regression (map real_of_int [j1..j2])
            (column_window (MFS_V_matrix b q) (j1 - 1) j2 i) (window_weights b j1 j2 wtype)
            = Inr (hb ! i, i2)
        \<and> Db ! i = np_add (Fin 1) s1"
      by auto
    have "Da ! i = Db ! i \<and> ha ! i = hb ! i" if i: "i < length q" for i
    proof -
      from spectrum_window_cong [OF assms(1) i assms(2)]
      have "column_window (MFS_U_matrix a q) (j1 - 1) j2 i
              = column_window (MFS_U_matrix b q) (j1 - 1) j2 i"
        "column_window (MFS_V_matrix a q) (j1 - 1) j2 i
              = column_window (MFS_V_matrix b q) (j1 - 1) j2 i"
        by simp_all
      with ra(5) rb(5) w i show ?thesis by fastforce
    qed
    then have "Da = Db" "ha = hb"
      using ra(3,4) rb(3,4) by (auto intro: nth_equalityI)
    with ra(1,2) rb(1,2) show ?thesis by simp
  qed
  from sf mfs show ?thesis by blast
qed

lemma ex_window_runs:
  "map_sum id (\<lambda>st. (sf_zeta (self st), sf_intercept (self st)))
     (StructureFunction_init mrq_ex [1] 1 2 True) = Inr (Some [Fin 1], Some [Fin (- 1)])"
  "map_sum id (\<lambda>st. (sf_zeta (self st), sf_intercept (self st)))
     (StructureFunction_init mrq_ex2 [1] 1 2 True) = Inr (Some [Fin 1], Some [Fin (- 1)])"
  "map_sum id (\<lambda>s. (mfs_Dq s, mfs_hq s)) (MFS_post_init_body mfs_ex1 mrq_ex)
     = Inr (Some [Fin 1], Some [Fin 1])"
  "map_sum id (\<lambda>s. (mfs_Dq s, mfs_hq s)) (MFS_post_init_body mfs_ex1 mrq_ex2)
     = Inr (Some [Fin 1], Some [Fin 1])"
  by (simp_all add: mfs_eval_defs eval_defs mfs_ex1_def mrq_ex_def mrq_ex2_def log2_half)

theorem window_noninterference_witness:
  "scales mrq_ex = scales mrq_ex2
   \<and> slice_positions (length (scales mrq_ex)) (1 - 1) 2 = [0, 1]
   \<and> coefficients mrq_ex 1 = coefficients mrq_ex2 1 \<and> coefficients mrq_ex 2 = coefficients mrq_ex2 2
   \<and> count mrq_ex 1 = count mrq_ex2 1 \<and> count mrq_ex 2 = count mrq_ex2 2
   \<and> coefficients mrq_ex 3 \<noteq> coefficients mrq_ex2 3
   \<and> (\<exists>sa sb ma mb.
         StructureFunction_init mrq_ex [1] 1 2 True = Inr sa
       \<and> StructureFunction_init mrq_ex2 [1] 1 2 True = Inr sb
       \<and> MFS_post_init_body mfs_ex1 mrq_ex = Inr ma
       \<and> MFS_post_init_body mfs_ex1 mrq_ex2 = Inr mb
       \<and> sf_zeta (self sa) = sf_zeta (self sb) \<and> sf_intercept (self sa) = sf_intercept (self sb)
       \<and> mfs_Dq ma = mfs_Dq mb \<and> mfs_hq ma = mfs_hq mb)"
proof -
  have h: "scales mrq_ex = scales mrq_ex2"
    "slice_positions (length (scales mrq_ex)) (1 - 1) 2 = [0, 1]"
    "coefficients mrq_ex 1 = coefficients mrq_ex2 1" "coefficients mrq_ex 2 = coefficients mrq_ex2 2"
    "count mrq_ex 1 = count mrq_ex2 1" "count mrq_ex 2 = count mrq_ex2 2"
    "coefficients mrq_ex 3 \<noteq> coefficients mrq_ex2 3"
    "scales mrq_ex ! 0 = 1" "scales mrq_ex ! 1 = 2" "[1..2] = [1, 2 :: int]"
    by (simp_all add: scales_def coefficients_def count_def mrq_ex_def mrq_ex2_def
        slice_positions_def slice_bound_def upto.simps eval_nat_numeral)
  have p: "\<forall>p\<in>set (slice_positions (length (scales mrq_ex)) (1 - 1) 2).
             coefficients mrq_ex (scales mrq_ex ! p) = coefficients mrq_ex2 (scales mrq_ex ! p)
           \<and> count mrq_ex (scales mrq_ex ! p) = count mrq_ex2 (scales mrq_ex ! p)"
    unfolding h(2) using h(3-6,8,9) by simp
  have c: "True \<longrightarrow> (\<forall>j\<in>set [1..2]. count mrq_ex j = count mrq_ex2 j)"
    unfolding h(10) using h(5,6) by simp
  from ex_window_runs obtain sa sb ma mb where r:
    "StructureFunction_init mrq_ex [1] 1 2 True = Inr sa"
    "StructureFunction_init mrq_ex2 [1] 1 2 True = Inr sb"
    "MFS_post_init_body mfs_ex1 mrq_ex = Inr ma"
    "MFS_post_init_body mfs_ex1 mrq_ex2 = Inr mb"
    by (cases "StructureFunction_init mrq_ex [1] 1 2 True";
        cases "StructureFunction_init mrq_ex2 [1] 1 2 True";
        cases "MFS_post_init_body mfs_ex1 mrq_ex";
        cases "MFS_post_init_body mfs_ex1 mrq_ex2") auto
  have m: "mfs_q mfs_ex1 = [1]" "mfs_j1 mfs_ex1 = 1" "mfs_j2 mfs_ex1 = 2" "mfs_wtype mfs_ex1 = True"
    by (simp_all add: mfs_ex1_def)
  from window_noninterference [OF h(1) p c, of "[1]"] r m
  have "sf_zeta (self sa) = sf_zeta (self sb) \<and> sf_intercept (self sa) = sf_intercept (self sb)"
    "mfs_Dq ma = mfs_Dq mb \<and> mfs_hq ma = mfs_hq mb"
    by blast+
  with h(1-7) r show ?thesis by blast
qed

text \<open>
  C9 as stated fails: the slice selects list positions, the weights are read by scale.
  With the scales \<open>2, 3, 4, 5\<close> and the window \<open>j1 = 2\<close>, \<open>j2 = 4\<close> the slice selects the
  positions 1, 2, 3 (the scales 3, 4, 5), on which the two quantities agree, while the
  weights are the counts of the scales 2, 3, 4, and the count of scale 2 differs.
\<close>

theorem window_noninterference_counterexample:
  "scales mrq_a = [2, 3, 4, 5] \<and> scales mrq_b = [2, 3, 4, 5]
   \<and> slice_positions (length (scales mrq_a)) (2 - 1) 4 = [1, 2, 3]
   \<and> coefficients mrq_a 3 = coefficients mrq_b 3 \<and> count mrq_a 3 = count mrq_b 3
   \<and> coefficients mrq_a 4 = coefficients mrq_b 4 \<and> count mrq_a 4 = count mrq_b 4
   \<and> coefficients mrq_a 5 = coefficients mrq_b 5 \<and> count mrq_a 5 = count mrq_b 5
   \<and> StructureFunction_init mrq_a [1] 2 4 True = Inr sf_a
   \<and> StructureFunction_init mrq_b [1] 2 4 True = Inr sf_b
   \<and> sf_zeta (self sf_a) = Some [Fin 0] \<and> sf_zeta (self sf_b) = Some [Fin (1 / 11)]
   \<and> sf_zeta (self sf_a) \<noteq> sf_zeta (self sf_b)"
  by (simp add: eval_defs mrq_a_def mrq_b_def sf_a_def sf_b_def scales_def coefficients_def
      count_def)

end
